theory Spec2Isabelle
  imports Main
begin

section \<open>JavaScript strings and numbers\<close>

text \<open>
  A JavaScript string is modelled as a \<^typ>\<open>string\<close>, one \<^typ>\<open>char\<close> per code unit, so
  the model covers the strings whose code units are below 256 (hex addresses and decimal
  amounts are ASCII). A bigint is an \<^typ>\<open>int\<close>. A Number that holds a time stamp, a
  chain id or a timeout is an \<^typ>\<open>int\<close> as well, with \<open>NaN\<close> as \<open>None\<close> where
  \<open>parseInt\<close> can produce it: the clock reading \<open>Math.floor(Date.now() / 1000)\<close> is
  always far inside the safe integers, and rounding a parsed integer to the nearest
  double cannot move it across a safe integer, so the comparisons of \<open>verifyUpto\<close>
  go the same way on the exact value as on the double.
\<close>

subsection \<open>\<open>String.prototype.toLowerCase\<close>\<close>

definition toLowerCaseChar :: "char \<Rightarrow> char" where
  "toLowerCaseChar c =
     (let n = (of_char c :: nat)
      in if (65 \<le> n \<and> n \<le> 90) \<or> (192 \<le> n \<and> n \<le> 214) \<or> (216 \<le> n \<and> n \<le> 222)
         then char_of (n + 32) else c)"

definition toLowerCase :: "string \<Rightarrow> string" where
  "toLowerCase s = map toLowerCaseChar s"

subsection \<open>White space and digits\<close>

text \<open>
  \<open>StrWhiteSpaceChar\<close> of the language standard, on code units below 256: TAB, LF, VT,
  FF, CR, SP and NBSP.
\<close>

definition isStrWhiteSpaceChar :: "char \<Rightarrow> bool" where
  "isStrWhiteSpaceChar c = ((of_char c :: nat) \<in> {9, 10, 11, 12, 13, 32, 160})"

definition trimStart :: "string \<Rightarrow> string" where
  "trimStart s = dropWhile isStrWhiteSpaceChar s"

definition trimEnd :: "string \<Rightarrow> string" where
  "trimEnd s = rev (dropWhile isStrWhiteSpaceChar (rev s))"

text \<open>
  The value of a character as a digit: \<open>0\<close>-\<open>9\<close>, then the letters in either case for
  10 to 35; 36 for a character that is a digit in no radix.
\<close>

definition digitValue :: "char \<Rightarrow> nat" where
  "digitValue c =
     (let n = (of_char c :: nat)
      in if 48 \<le> n \<and> n \<le> 57 then n - 48
         else if 97 \<le> n \<and> n \<le> 122 then n - 87
         else if 65 \<le> n \<and> n \<le> 90 then n - 55
         else 36)"

definition isRadixDigit :: "nat \<Rightarrow> char \<Rightarrow> bool" where
  "isRadixDigit R c = (digitValue c < R)"

definition digitsValue :: "nat \<Rightarrow> string \<Rightarrow> nat" where
  "digitsValue R ds = foldl (\<lambda>acc c. acc * R + digitValue c) 0 ds"

subsection \<open>\<open>parseInt(string, radix)\<close>\<close>

text \<open>
  The algorithm of the standard: skip leading white space, read a sign, strip a
  \<open>0x\<close>/\<open>0X\<close> prefix when the radix is absent or 16, take the longest prefix of digits
  of the radix, and answer \<open>NaN\<close> (here \<open>None\<close>) when that prefix is empty. The radix 0
  stands for an absent radix, as in the standard.
\<close>

definition isHexPrefix :: "string \<Rightarrow> bool" where
  "isHexPrefix s = (take 2 s = ''0x'' \<or> take 2 s = ''0X'')"

definition parseInt :: "string \<Rightarrow> nat \<Rightarrow> int option" where
  "parseInt string radix =
     (let S = trimStart string;
          sign = (if take 1 S = ''-'' then - 1 else (1::int));
          S1 = (if take 1 S = ''+'' \<or> take 1 S = ''-'' then drop 1 S else S);
          stripPrefix = (radix = 0 \<or> radix = 16);
          R0 = (if radix = 0 then 10 else radix)
      in if radix \<noteq> 0 \<and> (radix < 2 \<or> 36 < radix) then None
         else
           let hex = (stripPrefix \<and> isHexPrefix S1);
               S2 = (if hex then drop 2 S1 else S1);
               R = (if hex then 16 else R0);
               Z = takeWhile (isRadixDigit R) S2
           in if Z = [] then None else Some (sign * int (digitsValue R Z)))"

text \<open>The comparisons \<open>x <= now\<close> and \<open>x > now\<close> of a Number: both are false on \<open>NaN\<close>.\<close>

definition num_le :: "int option \<Rightarrow> int \<Rightarrow> bool" where
  "num_le x n = (case x of None \<Rightarrow> False | Some v \<Rightarrow> v \<le> n)"

definition num_gt :: "int option \<Rightarrow> int \<Rightarrow> bool" where
  "num_gt x n = (case x of None \<Rightarrow> False | Some v \<Rightarrow> n < v)"

subsection \<open>\<open>BigInt(string)\<close>\<close>

text \<open>
  \<open>StringToBigInt\<close>: white space is trimmed at both ends; the empty string is \<open>0n\<close>; a
  decimal literal may carry a sign; a \<open>0x\<close>, \<open>0o\<close> or \<open>0b\<close> literal may not. Anything
  else makes \<open>BigInt\<close> throw a \<open>SyntaxError\<close>, which is \<open>None\<close> here.
\<close>

definition BigInt :: "string \<Rightarrow> int option" where
  "BigInt s =
     (let t = trimEnd (trimStart s)
      in if t = [] then Some 0
         else if take 2 t = ''0x'' \<or> take 2 t = ''0X'' then
           (if drop 2 t \<noteq> [] \<and> list_all (isRadixDigit 16) (drop 2 t)
            then Some (int (digitsValue 16 (drop 2 t))) else None)
         else if take 2 t = ''0o'' \<or> take 2 t = ''0O'' then
           (if drop 2 t \<noteq> [] \<and> list_all (isRadixDigit 8) (drop 2 t)
            then Some (int (digitsValue 8 (drop 2 t))) else None)
         else if take 2 t = ''0b'' \<or> take 2 t = ''0B'' then
           (if drop 2 t \<noteq> [] \<and> list_all (isRadixDigit 2) (drop 2 t)
            then Some (int (digitsValue 2 (drop 2 t))) else None)
         else
           let neg = (take 1 t = ''-'');
               ds = (if take 1 t = ''+'' \<or> take 1 t = ''-'' then drop 1 t else t)
           in if ds \<noteq> [] \<and> list_all (isRadixDigit 10) ds
              then Some ((if neg then - 1 else 1) * int (digitsValue 10 ds)) else None)"

subsection \<open>\<open>toString()\<close> of an integer\<close>

text \<open>
  The decimal digits, with a minus sign for a negative value: what \<open>toString\<close> gives for
  a bigint, and for an integer Number below \<open>10^21\<close>.
\<close>

definition digitChar :: "nat \<Rightarrow> char" where
  "digitChar d = ''0123456789'' ! d"

fun natToString :: "nat \<Rightarrow> string" where
  "natToString n =
     (if n < 10 then [digitChar n] else natToString (n div 10) @ [digitChar (n mod 10)])"

declare natToString.simps [simp del]

definition toString :: "int \<Rightarrow> string" where
  "toString n = (if n < 0 then CHR ''-'' # natToString (nat (- n)) else natToString (nat n))"

text \<open>A decimal string: one or more of the digits \<open>0\<close>-\<open>9\<close> and nothing else.\<close>

definition isDecimalString :: "string \<Rightarrow> bool" where
  "isDecimalString s = (s \<noteq> [] \<and> list_all (isRadixDigit 10) s)"

subsection \<open>\<open>String.prototype.split\<close> on a one-character separator\<close>

fun split :: "char \<Rightarrow> string \<Rightarrow> string list" where
  "split sep [] = [[]]"
| "split sep (c # cs) =
     (if c = sep then [] # split sep cs
      else (case split sep cs of [] \<Rightarrow> [[c]] | p # ps \<Rightarrow> (c # p) # ps))"


section \<open>Data model (\<open>types.ts\<close>, \<open>constants.ts\<close>)\<close>

definition PERMIT2_ADDRESS :: string where
  "PERMIT2_ADDRESS = ''0x000000000022D473030F116dDEE9F6B43aC78BA3''"

definition X402_UPTO_PERMIT2_PROXY_ADDRESS :: string where
  "X402_UPTO_PERMIT2_PROXY_ADDRESS = ''0x4020633461b2895a48930Ff97eE8fCdE8E520002''"

text \<open>Known USDC addresses by CAIP-2 network id: the own keys of the table. What
  indexing the object finds beyond them is \<open>USDC_ADDRESSES_at\<close> below.\<close>

definition USDC_ADDRESSES :: "string \<rightharpoonup> string" where
  "USDC_ADDRESSES = map_of
     [(''eip155:8453'', ''0x833589fCD6eDb6E08f4c7C32D4f71b54bdA02913''),
      (''eip155:84532'', ''0x036CbD53842c5426634e7929541eC2318f3dCF7e'')]"

record Permit2Witness =
  to :: string
  validAfter :: string
  extra :: string

text \<open>The object \<open>permitted\<close> of an authorization: \<open>amount\<close> is the signed ceiling.\<close>

record TokenPermissions =
  token :: string
  amount :: string

record Permit2Authorization =
  "from" :: string
  permitted :: TokenPermissions
  spender :: string
  nonce :: string
  deadline :: string
  witness :: Permit2Witness

text \<open>\<open>settlementAmount\<close> is optional: \<open>None\<close> is the absent (undefined) field.\<close>

record UptoPermit2Payload =
  signature :: string
  permit2Authorization :: Permit2Authorization
  settlementAmount :: "string option"

text \<open>
  The field \<open>scheme\<close> has the one-value type \<open>"upto"\<close> and the optional \<open>extra\<close> is read
  nowhere; both are left out. \<open>maxTimeoutSeconds\<close> is an integer Number.
\<close>

record UptoPaymentRequirements =
  network :: string
  asset :: string
  maxAmount :: string
  payTo :: string
  maxTimeoutSeconds :: int

record VerifyResult =
  isValid :: bool
  invalidReason :: "string option"
  payer :: "string option"

record SettleResult =
  success :: bool
  txHash :: "string option"
  settledAmount :: "string option"
  error :: "string option"

subsection \<open>Thrown values\<close>

text \<open>
  What a call can throw: the \<open>SyntaxError\<close> of \<open>BigInt\<close> on a string it cannot read, an
  \<open>Error\<close> with a message, or a value that is no \<open>Error\<close>. An async function that throws
  returns a rejected promise: the \<open>Inl\<close> of its result.
\<close>

datatype js_error = SyntaxError string | Error string | Thrown

text \<open>\<open>err instanceof Error ? err.message : "settlement_failed"\<close>, with the message the
  V8 engine gives the \<open>SyntaxError\<close> of \<open>BigInt\<close>.\<close>

fun catch_message :: "js_error \<Rightarrow> string" where
  "catch_message (SyntaxError s) = ''Cannot convert '' @ s @ '' to a BigInt''"
| "catch_message (Error m) = m"
| "catch_message Thrown = ''settlement_failed''"

subsection \<open>The facilitator signer\<close>

datatype abi = ERC20_ABI | X402_UPTO_PROXY_ABI

record TypedDataDomain =
  name :: string
  chainId :: "int option"
  verifyingContract :: string

definition PERMIT2_DOMAIN :: TypedDataDomain where
  "PERMIT2_DOMAIN = \<lparr> name = ''Permit2'', chainId = Some 0, verifyingContract = PERMIT2_ADDRESS \<rparr>"

text \<open>
  The typed message \<open>PermitWitnessTransferFrom\<close>, its nested objects \<open>permitted\<close> and
  \<open>witness\<close> flattened. The facilitator passes \<open>amount\<close> as a bigint, the client as the string
  of the requirements, hence the type parameter.
\<close>

record 'a PermitWitnessTransferFrom =
  m_permitted_token :: string
  m_permitted_amount :: 'a
  m_spender :: string
  m_nonce :: int
  m_deadline :: int
  m_witness_to :: string
  m_witness_validAfter :: int
  m_witness_extra :: string

text \<open>The constant \<open>types: WITNESS_TYPES\<close> of both typed-data calls is left out.\<close>

record VerifyTypedDataParams =
  address :: string
  domain :: TypedDataDomain
  primaryType :: string
  message :: "int PermitWitnessTransferFrom"
  signature :: string

record ReadContractParams =
  address :: string
  abi :: abi
  functionName :: string
  args :: "string list"

text \<open>The arguments of the proxy's \<open>settle(permit, amount, owner, witness, signature)\<close>.\<close>

record SettleArgs =
  permit_permitted_token :: string
  permit_permitted_amount :: int
  permit_nonce :: int
  permit_deadline :: int
  amount :: int
  owner :: string
  witness_to :: string
  witness_validAfter :: int
  witness_extra :: string
  signature :: string

record WriteContractParams =
  address :: string
  abi :: abi
  functionName :: string
  args :: SettleArgs

datatype receipt_status = Success | Reverted

record TransactionReceipt =
  status :: receipt_status
  transactionHash :: string

text \<open>
  The signer is the capability for chain I/O. Its answers may depend on a world \<open>'w\<close> (the
  chain, a mock's call counter) that each call may change; a call returns or throws.
\<close>

record 'w FacilitatorSigner =
  readContract :: "ReadContractParams \<Rightarrow> 'w \<Rightarrow> (js_error + int) \<times> 'w"
  verifyTypedData :: "VerifyTypedDataParams \<Rightarrow> 'w \<Rightarrow> (js_error + bool) \<times> 'w"
  writeContract :: "WriteContractParams \<Rightarrow> 'w \<Rightarrow> (js_error + string) \<times> 'w"
  waitForTransactionReceipt :: "string \<Rightarrow> 'w \<Rightarrow> (js_error + TransactionReceipt) \<times> 'w"

text \<open>The calls made on the signer, in order: the observable chain interaction of a run.\<close>

datatype call =
    ReadContract ReadContractParams
  | VerifyTypedData VerifyTypedDataParams
  | WriteContract WriteContractParams
  | WaitForTransactionReceipt string

fun isReadContract :: "call \<Rightarrow> bool" where
  "isReadContract (ReadContract p) = True"
| "isReadContract c = False"

section \<open>The verifier (\<open>facilitator/permit2.ts\<close>)\<close>

text \<open>\<open>parseInt(network.split(":")[1], 10)\<close>; a missing second part is \<open>undefined\<close>, which
  \<open>parseInt\<close> reads as the string \<open>"undefined"\<close>.\<close>

definition parseChainId :: "string \<Rightarrow> int option" where
  "parseChainId net =
     (case split CHR '':'' net of
        p0 # p1 # ps \<Rightarrow> parseInt p1 10
      | _ \<Rightarrow> parseInt ''undefined'' 10)"

definition invalid :: "string \<Rightarrow> VerifyResult" where
  "invalid reason = \<lparr> isValid = False, invalidReason = Some reason, payer = None \<rparr>"

text \<open>The object \<open>message\<close> of \<open>verifyUpto\<close>: four \<open>BigInt\<close> conversions, in the order of the
  object literal, each of which may throw.\<close>

definition verify_message :: "Permit2Authorization \<Rightarrow> js_error + int PermitWitnessTransferFrom" where
  "verify_message auth =
     (case BigInt (TokenPermissions.amount (permitted auth)) of
        None \<Rightarrow> Inl (SyntaxError (TokenPermissions.amount (permitted auth)))
      | Some a \<Rightarrow>
     (case BigInt (nonce auth) of
        None \<Rightarrow> Inl (SyntaxError (nonce auth))
      | Some n \<Rightarrow>
     (case BigInt (deadline auth) of
        None \<Rightarrow> Inl (SyntaxError (deadline auth))
      | Some d \<Rightarrow>
     (case BigInt (validAfter (witness auth)) of
        None \<Rightarrow> Inl (SyntaxError (validAfter (witness auth)))
      | Some v \<Rightarrow>
          Inr \<lparr> m_permitted_token = token (permitted auth),
                m_permitted_amount = a,
                m_spender = spender auth,
                m_nonce = n,
                m_deadline = d,
                m_witness_to = to (witness auth),
                m_witness_validAfter = v,
                m_witness_extra = extra (witness auth) \<rparr>))))"

definition verify_params ::
  "UptoPermit2Payload \<Rightarrow> UptoPaymentRequirements \<Rightarrow> int PermitWitnessTransferFrom
    \<Rightarrow> VerifyTypedDataParams" where
  "verify_params payload requirements msg =
     \<lparr> VerifyTypedDataParams.address = from (permit2Authorization payload),
       domain = PERMIT2_DOMAIN \<lparr> chainId := parseChainId (network requirements) \<rparr>,
       primaryType = ''PermitWitnessTransferFrom'',
       message = msg,
       VerifyTypedDataParams.signature = UptoPermit2Payload.signature payload \<rparr>"

definition allowance_params :: "Permit2Authorization \<Rightarrow> ReadContractParams" where
  "allowance_params auth =
     \<lparr> ReadContractParams.address = token (permitted auth),
       ReadContractParams.abi = ERC20_ABI,
       ReadContractParams.functionName = ''allowance'',
       ReadContractParams.args = [from auth, PERMIT2_ADDRESS] \<rparr>"

definition balance_params :: "Permit2Authorization \<Rightarrow> ReadContractParams" where
  "balance_params auth =
     \<lparr> ReadContractParams.address = token (permitted auth),
       ReadContractParams.abi = ERC20_ABI,
       ReadContractParams.functionName = ''balanceOf'',
       ReadContractParams.args = [from auth] \<rparr>"

text \<open>
  \<open>verifyUpto(signer, payload, requirements)\<close>, with the clock reading \<open>now\<close> and the world
  \<open>w\<close> made explicit. The result is the resolved \<open>VerifyResult\<close> or the thrown error, the
  signer calls made, and the world afterwards. A \<open>BigInt\<close> inside a \<open>try\<close> block is caught
  by it; one outside rejects the promise.
\<close>

definition verifyUpto ::
  "'w FacilitatorSigner \<Rightarrow> UptoPermit2Payload \<Rightarrow> UptoPaymentRequirements \<Rightarrow> int \<Rightarrow> 'w
    \<Rightarrow> (js_error + VerifyResult) \<times> call list \<times> 'w" where
  "verifyUpto signer payload requirements now w =
     (let auth = permit2Authorization payload in
      if toLowerCase (spender auth) \<noteq> toLowerCase X402_UPTO_PERMIT2_PROXY_ADDRESS
      then (Inr (invalid ''invalid_spender''), [], w)
      else if toLowerCase (to (witness auth)) \<noteq> toLowerCase (payTo requirements)
      then (Inr (invalid ''invalid_recipient''), [], w)
      else if num_le (parseInt (deadline auth) 0) now
      then (Inr (invalid ''permit2_deadline_expired''), [], w)
      else if num_gt (parseInt (validAfter (witness auth)) 0) now
      then (Inr (invalid ''permit2_not_yet_valid''), [], w)
      else
      (case BigInt (TokenPermissions.amount (permitted auth)) of
         None \<Rightarrow> (Inl (SyntaxError (TokenPermissions.amount (permitted auth))), [], w)
       | Some a \<Rightarrow>
      (case BigInt (maxAmount requirements) of
         None \<Rightarrow> (Inl (SyntaxError (maxAmount requirements)), [], w)
       | Some m \<Rightarrow>
      if a < m
      then (Inr (invalid ''insufficient_authorized_amount''), [], w)
      else
      (case verify_message auth of
         Inl e \<Rightarrow> (Inl e, [], w)
       | Inr msg \<Rightarrow>
      (let vp = verify_params payload requirements msg;
           c1 = [VerifyTypedData vp]
       in case verifyTypedData signer vp w of
         (Inl e, w1) \<Rightarrow> (Inr (invalid ''signature_verification_failed''), c1, w1)
       | (Inr isValidSig, w1) \<Rightarrow>
      if \<not> isValidSig
      then (Inr (invalid ''invalid_permit2_signature''), c1, w1)
      else
      (let c2 = c1 @ [ReadContract (allowance_params auth)]
       in case readContract signer (allowance_params auth) w1 of
         (Inl e, w2) \<Rightarrow> (Inr (invalid ''allowance_check_failed''), c2, w2)
       | (Inr allowance, w2) \<Rightarrow>
      (case BigInt (TokenPermissions.amount (permitted auth)) of
         None \<Rightarrow> (Inr (invalid ''allowance_check_failed''), c2, w2)
       | Some a2 \<Rightarrow>
      if allowance < a2
      then (Inr (invalid ''permit2_allowance_required''), c2, w2)
      else
      (let c3 = c2 @ [ReadContract (balance_params auth)]
       in case readContract signer (balance_params auth) w2 of
         (Inl e, w3) \<Rightarrow> (Inr (invalid ''balance_check_failed''), c3, w3)
       | (Inr balance, w3) \<Rightarrow>
      (case BigInt (TokenPermissions.amount (permitted auth)) of
         None \<Rightarrow> (Inr (invalid ''balance_check_failed''), c3, w3)
       | Some a3 \<Rightarrow>
      if balance < a3
      then (Inr (invalid ''insufficient_balance''), c3, w3)
      else (Inr \<lparr> isValid = True, invalidReason = None, payer = Some (from auth) \<rparr>,
            c3, w3))))))))))"

section \<open>The settler (\<open>facilitator/permit2.ts\<close>)\<close>

text \<open>The argument list of \<open>writeContract\<close>: five \<open>BigInt\<close> conversions inside the \<open>try\<close>
  block, in the order of the array literal.\<close>

definition settle_args :: "UptoPermit2Payload \<Rightarrow> string \<Rightarrow> js_error + SettleArgs" where
  "settle_args payload settlement =
     (let auth = permit2Authorization payload in
      case BigInt (TokenPermissions.amount (permitted auth)) of
        None \<Rightarrow> Inl (SyntaxError (TokenPermissions.amount (permitted auth)))
      | Some a \<Rightarrow>
     (case BigInt (nonce auth) of
        None \<Rightarrow> Inl (SyntaxError (nonce auth))
      | Some n \<Rightarrow>
     (case BigInt (deadline auth) of
        None \<Rightarrow> Inl (SyntaxError (deadline auth))
      | Some d \<Rightarrow>
     (case BigInt settlement of
        None \<Rightarrow> Inl (SyntaxError settlement)
      | Some s \<Rightarrow>
     (case BigInt (validAfter (witness auth)) of
        None \<Rightarrow> Inl (SyntaxError (validAfter (witness auth)))
      | Some v \<Rightarrow>
          Inr \<lparr> permit_permitted_token = token (permitted auth),
                permit_permitted_amount = a,
                permit_nonce = n,
                permit_deadline = d,
                SettleArgs.amount = s,
                owner = from auth,
                witness_to = to (witness auth),
                witness_validAfter = v,
                witness_extra = extra (witness auth),
                SettleArgs.signature = UptoPermit2Payload.signature payload \<rparr>)))))"

definition settle_failed :: "string option \<Rightarrow> SettleResult" where
  "settle_failed e = \<lparr> success = False, txHash = None, settledAmount = None, error = e \<rparr>"

text \<open>
  \<open>settleUpto(signer, payload, requirements)\<close>; \<open>now\<close> is the clock reading of the nested
  \<open>verifyUpto\<close>, the only place where the settler reads the clock. The local
  \<open>settlementAmount\<close> of the source is \<open>settlement\<close> here.
\<close>

definition settleUpto ::
  "'w FacilitatorSigner \<Rightarrow> UptoPermit2Payload \<Rightarrow> UptoPaymentRequirements \<Rightarrow> int \<Rightarrow> 'w
    \<Rightarrow> (js_error + SettleResult) \<times> call list \<times> 'w" where
  "settleUpto signer payload requirements now w =
     (let auth = permit2Authorization payload;
          settlement =
            (case settlementAmount payload of
               Some s \<Rightarrow> s
             | None \<Rightarrow> TokenPermissions.amount (permitted auth))
      in
      case BigInt settlement of
        None \<Rightarrow> (Inl (SyntaxError settlement), [], w)
      | Some s \<Rightarrow>
      (case BigInt (TokenPermissions.amount (permitted auth)) of
         None \<Rightarrow> (Inl (SyntaxError (TokenPermissions.amount (permitted auth))), [], w)
       | Some a \<Rightarrow>
      if s > a
      then (Inr (settle_failed (Some ''settlement_exceeds_authorization'')), [], w)
      else if s = 0
      then (Inr \<lparr> success = True, txHash = None, settledAmount = Some ''0'', error = None \<rparr>,
            [], w)
      else
      (case verifyUpto signer payload requirements now w of
         (Inl e, cs, w1) \<Rightarrow> (Inl e, cs, w1)
       | (Inr verification, cs, w1) \<Rightarrow>
      if \<not> isValid verification
      then (Inr (settle_failed (invalidReason verification)), cs, w1)
      else
      (case settle_args payload settlement of
         Inl e \<Rightarrow> (Inr (settle_failed (Some (catch_message e))), cs, w1)
       | Inr sargs \<Rightarrow>
      (let wp = \<lparr> WriteContractParams.address = X402_UPTO_PERMIT2_PROXY_ADDRESS,
                  WriteContractParams.abi = X402_UPTO_PROXY_ABI,
                  WriteContractParams.functionName = ''settle'',
                  WriteContractParams.args = sargs \<rparr>;
           c1 = cs @ [WriteContract wp]
       in case writeContract signer wp w1 of
         (Inl e, w2) \<Rightarrow> (Inr (settle_failed (Some (catch_message e))), c1, w2)
       | (Inr hash, w2) \<Rightarrow>
      (let c2 = c1 @ [WaitForTransactionReceipt hash]
       in case waitForTransactionReceipt signer hash w2 of
         (Inl e, w3) \<Rightarrow> (Inr (settle_failed (Some (catch_message e))), c2, w3)
       | (Inr receipt, w3) \<Rightarrow>
      if status receipt = Reverted
      then (Inr \<lparr> success = False, txHash = Some hash, settledAmount = None,
                  error = Some ''transaction_reverted'' \<rparr>, c2, w3)
      else (Inr \<lparr> success = True, txHash = Some (transactionHash receipt),
                  settledAmount = Some settlement, error = None \<rparr>, c2, w3)))))))"


section \<open>The client builder (\<open>client/permit2.ts\<close>)\<close>

record SignTypedDataParams =
  domain :: TypedDataDomain
  primaryType :: string
  message :: "string PermitWitnessTransferFrom"

record 'w ClientSigner =
  address :: string
  signTypedData :: "SignTypedDataParams \<Rightarrow> 'w \<Rightarrow> (js_error + string) \<times> 'w"

text \<open>The client's own \<open>parseChainId\<close>, which throws on a network that is not
  \<open>eip155:<chainId>\<close>.\<close>

definition client_parseChainId :: "string \<Rightarrow> js_error + int option" where
  "client_parseChainId net =
     (case split CHR '':'' net of
        [p0, p1] \<Rightarrow>
          if p0 \<noteq> ''eip155''
          then Inl (Error (''Unsupported network format: '' @ net @ ''. Expected eip155:<chainId>''))
          else Inr (parseInt p1 10)
      | _ \<Rightarrow> Inl (Error (''Unsupported network format: '' @ net @ ''. Expected eip155:<chainId>'')))"

text \<open>
  \<open>createUptoPermit2Payload(signer, requirements)\<close>. The function reads the clock twice
  (\<open>now1\<close> for the deadline, \<open>now2\<close> for \<open>validAfter\<close>) and draws
  \<open>rnd = Math.floor(Math.random() * 2 ** 48)\<close>; the three readings are arguments here. The
  locals \<open>deadline\<close>, \<open>validAfter\<close> and \<open>nonce\<close> of the source carry a suffix.
\<close>

definition createUptoPermit2Payload ::
  "'w ClientSigner \<Rightarrow> UptoPaymentRequirements \<Rightarrow> int \<Rightarrow> int \<Rightarrow> int \<Rightarrow> 'w
    \<Rightarrow> (js_error + UptoPermit2Payload) \<times> 'w" where
  "createUptoPermit2Payload signer requirements now1 now2 rnd w =
     (case client_parseChainId (network requirements) of
        Inl e \<Rightarrow> (Inl e, w)
      | Inr cid \<Rightarrow>
     (let deadline_n = now1 + maxTimeoutSeconds requirements;
          validAfter_n = now2 - 60;
          nonce_s = toString rnd
      in case BigInt nonce_s of
        None \<Rightarrow> (Inl (SyntaxError nonce_s), w)
      | Some nonce_b \<Rightarrow>
     (let msg = \<lparr> m_permitted_token = asset requirements,
                  m_permitted_amount = maxAmount requirements,
                  m_spender = X402_UPTO_PERMIT2_PROXY_ADDRESS,
                  m_nonce = nonce_b,
                  m_deadline = deadline_n,
                  m_witness_to = payTo requirements,
                  m_witness_validAfter = validAfter_n,
                  m_witness_extra = ''0x'' \<rparr>;
          sp = \<lparr> domain = PERMIT2_DOMAIN \<lparr> chainId := cid \<rparr>,
                 primaryType = ''PermitWitnessTransferFrom'',
                 message = msg \<rparr>
      in case signTypedData signer sp w of
        (Inl e, w1) \<Rightarrow> (Inl e, w1)
      | (Inr sig, w1) \<Rightarrow>
          (Inr \<lparr> UptoPermit2Payload.signature = sig,
                 permit2Authorization =
                   \<lparr> from = address signer,
                     permitted = \<lparr> token = asset requirements,
                                   TokenPermissions.amount = maxAmount requirements \<rparr>,
                     spender = X402_UPTO_PERMIT2_PROXY_ADDRESS,
                     nonce = nonce_s,
                     deadline = toString deadline_n,
                     witness = \<lparr> to = payTo requirements,
                                 validAfter = toString validAfter_n,
                                 extra = ''0x'' \<rparr> \<rparr>,
                 settlementAmount = None \<rparr>, w1))))"

section \<open>The server scheme (\<open>server/scheme.ts\<close>)\<close>

text \<open>
  \<open>parseUsdcAmount\<close> goes through \<open>parseFloat\<close>, a floating-point product and
  \<open>Math.round\<close>; it is an argument of the functions that call it: from the price string
  to the amount string, or the thrown \<open>Invalid price\<close> error.
\<close>

record UptoRouteConfig =
  maxPrice :: string
  network :: string
  payTo :: string
  asset :: "string option"
  maxTimeoutSeconds :: "int option"

text \<open>
  \<open>USDC_ADDRESSES[config.network]\<close> indexes a plain object: an own key gives its address,
  a name that \<open>Object.prototype\<close> defines gives that inherited member (a function or an
  object, so truthy and no string), and any other name gives \<open>undefined\<close>, here \<open>None\<close>.
\<close>

definition Object_prototype_names :: "string list" where
  "Object_prototype_names =
     [''constructor'', ''__defineGetter__'', ''__defineSetter__'', ''hasOwnProperty'',
      ''__lookupGetter__'', ''__lookupSetter__'', ''isPrototypeOf'', ''propertyIsEnumerable'',
      ''toString'', ''valueOf'', ''__proto__'', ''toLocaleString'']"

datatype asset_value = AssetAddress string | AssetMember string

definition USDC_ADDRESSES_at :: "string \<Rightarrow> asset_value option" where
  "USDC_ADDRESSES_at key =
     (case USDC_ADDRESSES key of
        Some a \<Rightarrow> Some (AssetAddress a)
      | None \<Rightarrow> if key \<in> set Object_prototype_names then Some (AssetMember key) else None)"

text \<open>
  What \<open>buildRequirements\<close> returns: the payment requirements, or, when the lookup found
  an inherited member, the same object with that member in the place of the asset
  (network, name of the member, \<open>maxAmount\<close>, \<open>payTo\<close>, \<open>maxTimeoutSeconds\<close>).
\<close>

datatype built_requirements =
    Requirements UptoPaymentRequirements
  | RequirementsWithMember string string string string int

definition buildRequirements ::
  "(string \<Rightarrow> js_error + string) \<Rightarrow> UptoRouteConfig \<Rightarrow> js_error + built_requirements" where
  "buildRequirements parseUsdcAmount config =
     (let asset_v = (case UptoRouteConfig.asset config of
                       Some a \<Rightarrow> Some (AssetAddress a)
                     | None \<Rightarrow> USDC_ADDRESSES_at (UptoRouteConfig.network config))
      in if asset_v = None \<or> asset_v = Some (AssetAddress [])
         then Inl (Error (''No default token for network '' @ UptoRouteConfig.network config
                           @ ''. Provide asset explicitly.''))
         else
           (case parseUsdcAmount (UptoRouteConfig.maxPrice config) of
              Inl e \<Rightarrow> Inl e
            | Inr m \<Rightarrow>
               (let t = (case UptoRouteConfig.maxTimeoutSeconds config of
                           Some t \<Rightarrow> t | None \<Rightarrow> 300)
                in case asset_v of
                  Some (AssetMember k) \<Rightarrow>
                    Inr (RequirementsWithMember (UptoRouteConfig.network config) k m
                           (UptoRouteConfig.payTo config) t)
                | Some (AssetAddress a) \<Rightarrow>
                    Inr (Requirements
                      \<lparr> UptoPaymentRequirements.network = UptoRouteConfig.network config,
                        UptoPaymentRequirements.asset = a,
                        maxAmount = m,
                        UptoPaymentRequirements.payTo = UptoRouteConfig.payTo config,
                        UptoPaymentRequirements.maxTimeoutSeconds = t \<rparr>)
                | None \<Rightarrow>
                    Inl (Error (''No default token for network ''
                           @ UptoRouteConfig.network config
                           @ ''. Provide asset explicitly.'')))))"

section \<open>The resource middleware (\<open>uptoPaymentMiddleware\<close>)\<close>

text \<open>
  A route definition; \<open>meter\<close> gets the raw request, the handler's response, the
  authorized amount and the payer, and returns the consumed amount or throws.
\<close>

record ('rq, 'rs) UptoRouteDefinition =
  maxPrice :: string
  network :: string
  payTo :: string
  asset :: "string option"
  maxTimeoutSeconds :: "int option"
  meter :: "'rq \<Rightarrow> 'rs \<Rightarrow> string \<Rightarrow> string option \<Rightarrow> js_error + string"
  description :: "string option"
  mimeType :: "string option"

text \<open>What the middleware reads of the request: the method, the path of the URL, the two
  payment headers and the raw request handed to \<open>meter\<close>.\<close>

record 'rq Request =
  "method" :: string
  pathname :: string
  header_X_Payment :: "string option"
  header_Payment_Signature :: "string option"
  raw :: 'rq

text \<open>The JSON bodies the middleware sends; an absent property is \<open>None\<close>.\<close>

record ErrorBody =
  error :: string
  reason :: "string option"
  accepts :: "UptoPaymentRequirements list option"
  description :: "string option"
  mimeType :: "string option"

text \<open>The outcome of the \<open>fetch\<close> of \<open>/verify\<close>: \<open>fetch\<close> throws (caught), reading the
  body as JSON throws (not caught), or the reply.\<close>

datatype verify_fetch = FetchFailed | BodyFailed js_error | VerifyReply VerifyResult

text \<open>
  The collaborators of one request, left out of scope by the specification: the price
  parser, \<open>JSON.parse(atob(header))\<close> (\<open>None\<close> when either throws), the two HTTP calls to
  the facilitator with their URL (\<open>None\<close> from \<open>post_settle\<close> when the call or its body
  throws), and the downstream handler \<open>next\<close>.
\<close>

record 'rs Collaborators =
  parseUsdcAmount :: "string \<Rightarrow> js_error + string"
  decode :: "string \<Rightarrow> UptoPermit2Payload option"
  post_verify :: "string \<Rightarrow> UptoPermit2Payload \<Rightarrow> UptoPaymentRequirements \<Rightarrow> verify_fetch"
  next_handler :: "js_error + 'rs"
  post_settle :: "string \<Rightarrow> UptoPermit2Payload \<Rightarrow> UptoPaymentRequirements \<Rightarrow> SettleResult option"

text \<open>A response header: a plain value, or the object whose JSON text goes base64-encoded
  into \<open>X-Payment-Response\<close> (\<open>success\<close>, \<open>txHash\<close>, \<open>settledAmount\<close>,
  \<open>authorizedAmount\<close>).\<close>

datatype header_value =
    Plain string
  | PaymentResponse bool "string option" "string option" string

text \<open>What the middleware does with a request: hand it on ungated, reply with JSON and a
  status, deliver the handler's response with the headers it added, or throw.\<close>

datatype 'rs outcome =
    PassThrough
  | Reply ErrorBody nat
  | Delivered 'rs "(string \<times> header_value) list"
  | Throws js_error

text \<open>A truthy string: present and not empty.\<close>

definition truthy :: "string option \<Rightarrow> string option" where
  "truthy s = (if s = Some [] then None else s)"

definition uptoPaymentMiddleware ::
  "(string \<rightharpoonup> ('rq, 'rs) UptoRouteDefinition) \<Rightarrow> string \<Rightarrow> 'rs Collaborators \<Rightarrow> 'rq Request
    \<Rightarrow> 'rs outcome" where
  "uptoPaymentMiddleware routes facilitatorUrl env req =
     (case routes (method req @ '' '' @ pathname req) of
        None \<Rightarrow> PassThrough
      | Some routeConfig \<Rightarrow>
     (case parseUsdcAmount env (UptoRouteDefinition.maxPrice routeConfig) of
        Inl e \<Rightarrow> Throws e
      | Inr maxAmount_v \<Rightarrow>
     (let requirements =
            \<lparr> UptoPaymentRequirements.network = UptoRouteDefinition.network routeConfig,
              UptoPaymentRequirements.asset =
                (case UptoRouteDefinition.asset routeConfig of
                   Some a \<Rightarrow> a
                 | None \<Rightarrow> ''0x036CbD53842c5426634e7929541eC2318f3dCF7e''),
              maxAmount = maxAmount_v,
              UptoPaymentRequirements.payTo = UptoRouteDefinition.payTo routeConfig,
              UptoPaymentRequirements.maxTimeoutSeconds =
                (case UptoRouteDefinition.maxTimeoutSeconds routeConfig of
                   Some t \<Rightarrow> t | None \<Rightarrow> 300) \<rparr>;
          paymentHeader =
            (case header_X_Payment req of Some h \<Rightarrow> Some h | None \<Rightarrow> header_Payment_Signature req)
      in case truthy paymentHeader of
        None \<Rightarrow>
          Reply \<lparr> error = ''Payment Required'', reason = None, accepts = Some [requirements],
                  description = truthy (UptoRouteDefinition.description routeConfig),
                  mimeType = truthy (UptoRouteDefinition.mimeType routeConfig) \<rparr> 402
      | Some header \<Rightarrow>
     (case decode env header of
        None \<Rightarrow>
          Reply \<lparr> error = ''Invalid payment payload'', reason = None, accepts = None,
                  description = None, mimeType = None \<rparr> 400
      | Some payload \<Rightarrow>
     (case post_verify env (facilitatorUrl @ ''/verify'') payload requirements of
        FetchFailed \<Rightarrow>
          Reply \<lparr> error = ''Facilitator unavailable'', reason = None, accepts = None,
                  description = None, mimeType = None \<rparr> 503
      | BodyFailed e \<Rightarrow> Throws e
      | VerifyReply verification \<Rightarrow>
     if \<not> isValid verification
     then Reply \<lparr> error = ''Payment verification failed'',
                  reason = invalidReason verification,
                  accepts = Some [requirements],
                  description = None, mimeType = None \<rparr>
                (if invalidReason verification = Some ''permit2_allowance_required''
                 then 412 else 402)
     else
     (case next_handler env of
        Inl e \<Rightarrow> Throws e
      | Inr res \<Rightarrow>
     (case meter routeConfig (raw req) res
             (TokenPermissions.amount (permitted (permit2Authorization payload)))
             (payer verification) of
        Inl e \<Rightarrow> Throws e
      | Inr consumedAmount \<Rightarrow>
     (case post_settle env (facilitatorUrl @ ''/settle'')
             (payload \<lparr> settlementAmount := Some consumedAmount \<rparr>) requirements of
        None \<Rightarrow> Delivered res []
      | Some settlement \<Rightarrow>
     if success settlement
     then Delivered res
            [(''X-Payment-Response'',
                PaymentResponse True (txHash settlement) (settledAmount settlement)
                  (TokenPermissions.amount (permitted (permit2Authorization payload)))),
             (''X-Payment-Settled'',
                Plain (case settledAmount settlement of Some a \<Rightarrow> a | None \<Rightarrow> consumedAmount)),
             (''X-Payment-TxHash'',
                Plain (case txHash settlement of Some h \<Rightarrow> h | None \<Rightarrow> []))]
     else Delivered res []))))))))"

section \<open>The audit store (\<open>db/init.ts\<close>, \<open>db/audit.ts\<close>)\<close>

text \<open>A row of the table \<open>payments\<close>; a nullable column is an option.\<close>

record PaymentRow =
  id :: nat
  payer :: string
  recipient :: string
  token :: string
  authorized_amount :: string
  settled_amount :: "string option"
  nonce :: string
  tx_hash :: "string option"
  status :: string
  network :: string
  created_at :: string
  settled_at :: "string option"

record PaymentRecord =
  payer :: string
  recipient :: string
  token :: string
  authorized_amount :: string
  settled_amount :: "string option"
  nonce :: string
  tx_hash :: "string option"
  status :: string
  network :: string

text \<open>\<open>initDb\<close> creates the table if it does not exist: the rows already in the file, or
  none.\<close>

definition initDb :: "PaymentRow list option \<Rightarrow> PaymentRow list" where
  "initDb existing = (case existing of None \<Rightarrow> [] | Some rows \<Rightarrow> rows)"

text \<open>
  \<open>INSERT OR IGNORE INTO payments (...) VALUES (?, ?, ?, ?, ?, 'verified', ?)\<close>. The engine
  supplies the \<open>AUTOINCREMENT\<close> id and the default \<open>created_at\<close>; both are arguments. The
  row is skipped when it would break \<open>UNIQUE(nonce)\<close> or the primary key; the bound values
  are strings, so no \<open>NOT NULL\<close> constraint can fail.
\<close>

definition recordVerification ::
  "PaymentRow list \<Rightarrow> PaymentRecord \<Rightarrow> nat \<Rightarrow> string \<Rightarrow> PaymentRow list" where
  "recordVerification db record rowid datetime_now =
     (if PaymentRecord.nonce record \<in> set (map PaymentRow.nonce db) \<or> rowid \<in> set (map id db)
      then db
      else db @
        [\<lparr> id = rowid,
           PaymentRow.payer = PaymentRecord.payer record,
           PaymentRow.recipient = PaymentRecord.recipient record,
           PaymentRow.token = PaymentRecord.token record,
           PaymentRow.authorized_amount = PaymentRecord.authorized_amount record,
           PaymentRow.settled_amount = None,
           PaymentRow.nonce = PaymentRecord.nonce record,
           PaymentRow.tx_hash = None,
           PaymentRow.status = ''verified'',
           PaymentRow.network = PaymentRecord.network record,
           created_at = datetime_now,
           settled_at = None \<rparr>])"

text \<open>\<open>UPDATE payments SET settled_amount = ?, tx_hash = ?, status = 'settled',
  settled_at = datetime('now') WHERE nonce = ?\<close>.\<close>

definition recordSettlement ::
  "PaymentRow list \<Rightarrow> string \<Rightarrow> string \<Rightarrow> string \<Rightarrow> string \<Rightarrow> PaymentRow list" where
  "recordSettlement db nonce_v settledAmount_v txHash_v datetime_now =
     map (\<lambda>row. if PaymentRow.nonce row = nonce_v
                 then row \<lparr> PaymentRow.settled_amount := Some settledAmount_v,
                            PaymentRow.tx_hash := Some txHash_v,
                            PaymentRow.status := ''settled'',
                            settled_at := Some datetime_now \<rparr>
                 else row) db"

text \<open>\<open>UPDATE payments SET status = 'failed', settled_amount = ? WHERE nonce = ?\<close>.\<close>

definition recordFailure :: "PaymentRow list \<Rightarrow> string \<Rightarrow> string \<Rightarrow> PaymentRow list" where
  "recordFailure db nonce_v error_v =
     map (\<lambda>row. if PaymentRow.nonce row = nonce_v
                 then row \<lparr> PaymentRow.status := ''failed'',
                            PaymentRow.settled_amount := Some error_v \<rparr>
                 else row) db"

text \<open>A sequence of \<open>recordVerification\<close> calls, each with its record, row id and time.\<close>

fun recordVerifications ::
  "PaymentRow list \<Rightarrow> (PaymentRecord \<times> nat \<times> string) list \<Rightarrow> PaymentRow list" where
  "recordVerifications db [] = db"
| "recordVerifications db ((record, rowid, t) # calls) =
     recordVerifications (recordVerification db record rowid t) calls"


section \<open>The properties in the words of the specification\<close>

text \<open>The effective settlement amount: \<open>settlementAmount\<close>, or the ceiling when it is
  absent.\<close>

definition effective_amount :: "UptoPermit2Payload \<Rightarrow> string" where
  "effective_amount payload =
     (case settlementAmount payload of
        Some s \<Rightarrow> s
      | None \<Rightarrow> TokenPermissions.amount (permitted (permit2Authorization payload)))"

text \<open>First failure wins: the tag of the first check of the list that does not hold.\<close>

fun first_failing :: "(bool \<times> string) list \<Rightarrow> string option" where
  "first_failing [] = None"
| "first_failing ((ok, tag) # checks) = (if ok then first_failing checks else Some tag)"

text \<open>
  The eight ordered checks of the verifier, each with its failure reason, on the numbers
  read from the payload (\<open>d\<close> the deadline, \<open>va\<close> \<open>validAfter\<close>, \<open>a\<close> the authorized
  amount, \<open>m\<close> the server's maximum) and the answers of the signer (\<open>sig\<close>, \<open>al\<close>,
  \<open>bal\<close>). A signer call that throws fails its check with the second reason the
  specification's table gives for it.
\<close>

definition ordered_checks ::
  "UptoPermit2Payload \<Rightarrow> UptoPaymentRequirements \<Rightarrow> int \<Rightarrow> int \<Rightarrow> int \<Rightarrow> int \<Rightarrow> int
    \<Rightarrow> js_error + bool \<Rightarrow> js_error + int \<Rightarrow> js_error + int \<Rightarrow> (bool \<times> string) list" where
  "ordered_checks payload requirements now d va a m sig al bal =
     [(toLowerCase (spender (permit2Authorization payload))
         = toLowerCase X402_UPTO_PERMIT2_PROXY_ADDRESS, ''invalid_spender''),
      (toLowerCase (to (witness (permit2Authorization payload)))
         = toLowerCase (UptoPaymentRequirements.payTo requirements), ''invalid_recipient''),
      (d > now, ''permit2_deadline_expired''),
      (va \<le> now, ''permit2_not_yet_valid''),
      (a \<ge> m, ''insufficient_authorized_amount''),
      (sig = Inr True,
         (case sig of Inl e \<Rightarrow> ''signature_verification_failed''
                    | Inr b \<Rightarrow> ''invalid_permit2_signature'')),
      ((case al of Inl e \<Rightarrow> False | Inr x \<Rightarrow> x \<ge> a),
         (case al of Inl e \<Rightarrow> ''allowance_check_failed''
                   | Inr x \<Rightarrow> ''permit2_allowance_required'')),
      ((case bal of Inl e \<Rightarrow> False | Inr x \<Rightarrow> x \<ge> a),
         (case bal of Inl e \<Rightarrow> ''balance_check_failed''
                    | Inr x \<Rightarrow> ''insufficient_balance''))]"

text \<open>The typed message whose signature is checked, over the numbers the fields of the
  authorization denote: \<open>a\<close> the amount, \<open>n\<close> the nonce, \<open>d\<close> the deadline, \<open>va\<close>
  \<open>validAfter\<close>.\<close>

definition signed_message ::
  "Permit2Authorization \<Rightarrow> int \<Rightarrow> int \<Rightarrow> int \<Rightarrow> int \<Rightarrow> int PermitWitnessTransferFrom" where
  "signed_message auth a n d va =
     \<lparr> m_permitted_token = TokenPermissions.token (permitted auth),
       m_permitted_amount = a,
       m_spender = spender auth,
       m_nonce = n,
       m_deadline = d,
       m_witness_to = to (witness auth),
       m_witness_validAfter = va,
       m_witness_extra = extra (witness auth) \<rparr>"

section \<open>Inputs of the test suite\<close>

text \<open>The requirements, payload and mock signers of the repository's unit tests, at a
  fixed clock reading.\<close>

definition example_now :: int where
  "example_now = 1700000000"

definition example_requirements :: UptoPaymentRequirements where
  "example_requirements =
     \<lparr> UptoPaymentRequirements.network = ''eip155:84532'',
       UptoPaymentRequirements.asset = ''0x036CbD53842c5426634e7929541eC2318f3dCF7e'',
       maxAmount = ''1000000'',
       UptoPaymentRequirements.payTo = ''0x70997970C51812dc3A010C7d01b50e0d17dc79C8'',
       UptoPaymentRequirements.maxTimeoutSeconds = 300 \<rparr>"

definition example_authorization :: Permit2Authorization where
  "example_authorization =
     \<lparr> from = ''0xf39Fd6e51aad88F6F4ce6aB8827279cffFb92266'',
       permitted = \<lparr> TokenPermissions.token = ''0x036CbD53842c5426634e7929541eC2318f3dCF7e'',
                     TokenPermissions.amount = ''1000000'' \<rparr>,
       spender = X402_UPTO_PERMIT2_PROXY_ADDRESS,
       Permit2Authorization.nonce = ''12345'',
       deadline = ''1700000600'',
       witness = \<lparr> to = ''0x70997970C51812dc3A010C7d01b50e0d17dc79C8'',
                   validAfter = ''1699999940'',
                   extra = ''0x'' \<rparr> \<rparr>"

definition example_payload :: UptoPermit2Payload where
  "example_payload =
     \<lparr> UptoPermit2Payload.signature = ''0xvalidsignature'',
       permit2Authorization = example_authorization,
       settlementAmount = None \<rparr>"

definition example_signer :: "unit FacilitatorSigner" where
  "example_signer =
     \<lparr> readContract = (\<lambda>p w. (Inr 10000000000, w)),
       verifyTypedData = (\<lambda>p w. (Inr True, w)),
       writeContract = (\<lambda>p w. (Inr ''0xtxhash'', w)),
       waitForTransactionReceipt =
         (\<lambda>h w. (Inr \<lparr> TransactionReceipt.status = Success,
                          transactionHash = ''0xtxhash'' \<rparr>, w)) \<rparr>"

text \<open>The mock of the allowance test: the first chain read answers 0, the later ones
  plenty; its world counts the reads.\<close>

definition example_signer_no_allowance :: "nat FacilitatorSigner" where
  "example_signer_no_allowance =
     \<lparr> readContract = (\<lambda>p n. (Inr (if n = 0 then 0 else 10000000000), Suc n)),
       verifyTypedData = (\<lambda>p n. (Inr True, n)),
       writeContract = (\<lambda>p n. (Inr ''0xtxhash'', n)),
       waitForTransactionReceipt =
         (\<lambda>h n. (Inr \<lparr> TransactionReceipt.status = Success,
                          transactionHash = ''0xtxhash'' \<rparr>, n)) \<rparr>"

definition example_client :: "unit ClientSigner" where
  "example_client =
     \<lparr> ClientSigner.address = ''0xf39Fd6e51aad88F6F4ce6aB8827279cffFb92266'',
       signTypedData = (\<lambda>p w. (Inr ''0xmocksignature'', w)) \<rparr>"


text \<open>
  A gated route without \<open>asset\<close> on a given network, as the demo server configures it, a
  request for it with a given \<open>X-Payment\<close> header, and collaborators: the price parser on
  the one price the route uses (with the amount the unit tests assert for it), a decoder
  that yields the test payload, and a facilitator with a given verify reply.
\<close>

definition example_route :: "string \<Rightarrow> (unit, unit) UptoRouteDefinition" where
  "example_route net =
     \<lparr> UptoRouteDefinition.maxPrice = ''$1.00'',
       UptoRouteDefinition.network = net,
       UptoRouteDefinition.payTo = ''0x70997970C51812dc3A010C7d01b50e0d17dc79C8'',
       UptoRouteDefinition.asset = None,
       UptoRouteDefinition.maxTimeoutSeconds = Some 300,
       meter = (\<lambda>rq rs authorized p. Inr ''43700''),
       UptoRouteDefinition.description = None,
       UptoRouteDefinition.mimeType = None \<rparr>"

definition example_routes :: "string \<Rightarrow> (string \<rightharpoonup> (unit, unit) UptoRouteDefinition)" where
  "example_routes net = [''POST /v1/chat/completions'' \<mapsto> example_route net]"

definition example_request :: "string option \<Rightarrow> unit Request" where
  "example_request h =
     \<lparr> method = ''POST'', pathname = ''/v1/chat/completions'',
       header_X_Payment = h, header_Payment_Signature = None, raw = () \<rparr>"

definition example_collaborators :: "VerifyResult \<Rightarrow> unit Collaborators" where
  "example_collaborators v =
     \<lparr> parseUsdcAmount =
         (\<lambda>price. if price = ''$1.00'' then Inr ''1000000''
                   else Inl (Error (''Invalid price: '' @ price))),
       decode = (\<lambda>h. Some example_payload),
       post_verify = (\<lambda>url p r. VerifyReply v),
       next_handler = Inr (),
       post_settle = (\<lambda>url p r. None) \<rparr>"

definition example_record :: "string \<Rightarrow> PaymentRecord" where
  "example_record n =
     \<lparr> PaymentRecord.payer = ''0xf39Fd6e51aad88F6F4ce6aB8827279cffFb92266'',
       PaymentRecord.recipient = ''0x70997970C51812dc3A010C7d01b50e0d17dc79C8'',
       PaymentRecord.token = ''0x036CbD53842c5426634e7929541eC2318f3dCF7e'',
       PaymentRecord.authorized_amount = ''1000000'',
       PaymentRecord.settled_amount = None,
       PaymentRecord.nonce = n,
       PaymentRecord.tx_hash = None,
       PaymentRecord.status = ''verified'',
       PaymentRecord.network = ''eip155:84532'' \<rparr>"

section \<open>Facts about the string functions\<close>

lemma digitValue_digitChar:
  assumes "d < 10"
  shows "digitValue (digitChar d) = d"
proof -
  have "\<forall>k \<in> set [0..<10]. digitValue (digitChar k) = k"
    by (simp add: upt_rec digitChar_def digitValue_def)
  with assms show ?thesis by simp
qed

lemma isRadixDigit_digitChar: "d < 10 \<Longrightarrow> isRadixDigit 10 (digitChar d)"
  by (simp add: isRadixDigit_def digitValue_digitChar)

lemma natToString_digits: "list_all (isRadixDigit 10) (natToString n)"
proof (induction n rule: natToString.induct)
  case (1 n)
  show ?case
  proof (cases "n < 10")
    case True
    then show ?thesis
      by (subst natToString.simps) (simp add: isRadixDigit_digitChar)
  next
    case False
    with "1" have "list_all (isRadixDigit 10) (natToString (n div 10))" by simp
    moreover have "isRadixDigit 10 (digitChar (n mod 10))"
      by (rule isRadixDigit_digitChar) simp
    ultimately show ?thesis using False
      by (subst natToString.simps) simp
  qed
qed

lemma natToString_nonempty: "natToString n \<noteq> []"
  by (subst natToString.simps) simp

lemma isDecimalString_natToString: "isDecimalString (natToString n)"
  by (simp add: isDecimalString_def natToString_digits natToString_nonempty)

lemma digitsValue_snoc: "digitsValue R (ds @ [c]) = digitsValue R ds * R + digitValue c"
  by (simp add: digitsValue_def)

lemma digitsValue_natToString: "digitsValue 10 (natToString n) = n"
proof (induction n rule: natToString.induct)
  case (1 n)
  show ?case
  proof (cases "n < 10")
    case True
    then show ?thesis
      by (subst natToString.simps) (simp add: digitsValue_def digitValue_digitChar)
  next
    case False
    with "1" have "digitsValue 10 (natToString (n div 10)) = n div 10" by simp
    then show ?thesis using False
      by (subst natToString.simps) (simp add: digitsValue_snoc digitValue_digitChar)
  qed
qed

text \<open>A decimal digit is neither white space nor a sign, and is a digit of radix 10 only
  if it is none of the prefix letters.\<close>

lemma decimal_digit_range:
  "isRadixDigit 10 c \<longleftrightarrow> 48 \<le> (of_char c :: nat) \<and> (of_char c :: nat) \<le> 57"
  by (auto simp: isRadixDigit_def digitValue_def Let_def)

lemma decimal_digit_not_space: "isRadixDigit 10 c \<Longrightarrow> \<not> isStrWhiteSpaceChar c"
  by (auto simp: decimal_digit_range isStrWhiteSpaceChar_def)

lemma decimal_string_trimStart:
  assumes "isDecimalString s"
  shows "trimStart s = s"
proof (cases s)
  case Nil
  then show ?thesis by (simp add: trimStart_def)
next
  case (Cons c cs)
  with assms have "\<not> isStrWhiteSpaceChar c"
    by (simp add: isDecimalString_def decimal_digit_not_space)
  with Cons show ?thesis by (simp add: trimStart_def)
qed

lemma decimal_string_trimEnd:
  assumes "isDecimalString s"
  shows "trimEnd s = s"
proof (cases "rev s")
  case Nil
  then show ?thesis by (simp add: trimEnd_def)
next
  case (Cons c cs)
  then have "c \<in> set s" by (metis list.set_intros(1) set_rev)
  with assms have "\<not> isStrWhiteSpaceChar c"
    by (auto simp: isDecimalString_def list_all_iff decimal_digit_not_space)
  with Cons have "dropWhile isStrWhiteSpaceChar (rev s) = rev s" by simp
  then show ?thesis by (simp add: trimEnd_def)
qed

lemma decimal_string_take1:
  assumes "isDecimalString s" and "\<not> isRadixDigit 10 c"
  shows "take 1 s \<noteq> [c]"
proof (cases s)
  case Nil
  then show ?thesis by simp
next
  case (Cons d ds)
  with assms show ?thesis by (auto simp: isDecimalString_def)
qed

lemma decimal_string_take2:
  assumes "isDecimalString s" and "\<not> isRadixDigit 10 c2"
  shows "take 2 s \<noteq> [c1, c2]"
proof
  assume eq: "take 2 s = [c1, c2]"
  then obtain r where "s = c1 # c2 # r"
    by (metis append_Cons append_Nil append_take_drop_id)
  with assms show False by (simp add: isDecimalString_def)
qed

lemma decimal_string_takeWhile:
  "isDecimalString s \<Longrightarrow> takeWhile (isRadixDigit 10) s = s"
  by (simp add: isDecimalString_def list_all_iff)

lemma parseInt_decimal_string:
  assumes "isDecimalString s"
  shows "parseInt s 0 = Some (int (digitsValue 10 s))"
proof -
  have t: "trimStart s = s" by (rule decimal_string_trimStart [OF assms])
  have m: "take 1 s \<noteq> ''-''" and p: "take 1 s \<noteq> ''+''"
    by (rule decimal_string_take1 [OF assms], simp add: decimal_digit_range)+
  have x: "take 2 s \<noteq> ''0x''" and X: "take 2 s \<noteq> ''0X''"
    by (rule decimal_string_take2 [OF assms], simp add: decimal_digit_range)+
  have w: "takeWhile (isRadixDigit 10) s = s" by (rule decimal_string_takeWhile [OF assms])
  have n: "s \<noteq> []" using assms by (simp add: isDecimalString_def)
  from m p x X n show ?thesis
    by (simp add: parseInt_def t w isHexPrefix_def)
qed

lemma BigInt_decimal_string:
  assumes "isDecimalString s"
  shows "BigInt s = Some (int (digitsValue 10 s))"
proof -
  have t: "trimEnd (trimStart s) = s"
    by (simp add: decimal_string_trimStart [OF assms] decimal_string_trimEnd [OF assms])
  have m: "take 1 s \<noteq> ''-''" and p: "take 1 s \<noteq> ''+''"
    by (rule decimal_string_take1 [OF assms], simp add: decimal_digit_range)+
  have x: "take 2 s \<noteq> ''0x''" "take 2 s \<noteq> ''0X''" "take 2 s \<noteq> ''0o''"
    "take 2 s \<noteq> ''0O''" "take 2 s \<noteq> ''0b''" "take 2 s \<noteq> ''0B''"
    by (rule decimal_string_take2 [OF assms], simp add: decimal_digit_range)+
  have n: "s \<noteq> []" and d: "list_all (isRadixDigit 10) s"
    using assms by (simp_all add: isDecimalString_def)
  from m p x n d show ?thesis
    by (simp add: BigInt_def t)
qed

lemma parseInt_natToString: "parseInt (natToString n) 0 = Some (int n)"
  by (simp add: parseInt_decimal_string isDecimalString_natToString digitsValue_natToString)

lemma BigInt_natToString: "BigInt (natToString n) = Some (int n)"
  by (simp add: BigInt_decimal_string isDecimalString_natToString digitsValue_natToString)

lemma dropWhile_fixed_append:
  assumes "dropWhile P xs = xs" and "xs \<noteq> []"
  shows "dropWhile P (xs @ ys) = xs @ ys"
proof (cases xs)
  case Nil
  with assms show ?thesis by simp
next
  case (Cons a l)
  have "\<not> P a"
  proof
    assume "P a"
    with Cons assms have "length (dropWhile P l) = Suc (length l)" by simp
    moreover have "length (dropWhile P l) \<le> length l" by (rule length_dropWhile_le)
    ultimately show False by simp
  qed
  with Cons show ?thesis by simp
qed

lemma minus_natToString_trim:
  "trimStart (CHR ''-'' # natToString n) = CHR ''-'' # natToString n"
  "trimEnd (CHR ''-'' # natToString n) = CHR ''-'' # natToString n"
proof -
  show "trimStart (CHR ''-'' # natToString n) = CHR ''-'' # natToString n"
    by (simp add: trimStart_def isStrWhiteSpaceChar_def)
  have "trimEnd (natToString n) = natToString n"
    by (rule decimal_string_trimEnd [OF isDecimalString_natToString])
  then have "dropWhile isStrWhiteSpaceChar (rev (natToString n)) = rev (natToString n)"
    by (metis rev_rev_ident trimEnd_def)
  moreover have "rev (natToString n) \<noteq> []" by (simp add: natToString_nonempty)
  ultimately have "dropWhile isStrWhiteSpaceChar (rev (natToString n) @ ''-'')
      = rev (natToString n) @ ''-''"
    by (rule dropWhile_fixed_append)
  then show "trimEnd (CHR ''-'' # natToString n) = CHR ''-'' # natToString n"
    by (simp add: trimEnd_def)
qed

lemma parseInt_toString: "parseInt (toString n) 0 = Some n"
proof (cases "n < 0")
  case False
  then show ?thesis by (simp add: toString_def parseInt_natToString)
next
  case True
  let ?s = "natToString (nat (- n))"
  have d: "isDecimalString ?s" by (rule isDecimalString_natToString)
  have x: "take 2 ?s \<noteq> ''0x''" and X: "take 2 ?s \<noteq> ''0X''"
    by (rule decimal_string_take2 [OF d], simp add: decimal_digit_range)+
  have w: "takeWhile (isRadixDigit 10) ?s = ?s" by (rule decimal_string_takeWhile [OF d])
  have v: "digitsValue 10 ?s = nat (- n)" by (rule digitsValue_natToString)
  from True x X show ?thesis
    by (simp add: toString_def parseInt_def minus_natToString_trim isHexPrefix_def w v
        natToString_nonempty)
qed

lemma BigInt_toString: "BigInt (toString n) = Some n"
proof (cases "n < 0")
  case False
  then show ?thesis by (simp add: toString_def BigInt_natToString)
next
  case True
  let ?s = "natToString (nat (- n))"
  have d: "list_all (isRadixDigit 10) ?s" by (rule natToString_digits)
  have v: "digitsValue 10 ?s = nat (- n)" by (rule digitsValue_natToString)
  from True show ?thesis
    by (simp add: toString_def BigInt_def minus_natToString_trim d v natToString_nonempty)
qed

section \<open>Evaluating the model on concrete inputs\<close>

lemmas eval_defs = example_now_def example_requirements_def example_authorization_def
  example_payload_def example_signer_def example_client_def effective_amount_def
  verifyUpto_def settleUpto_def verify_message_def verify_params_def allowance_params_def
  balance_params_def settle_args_def settle_failed_def invalid_def
  X402_UPTO_PERMIT2_PROXY_ADDRESS_def num_le_def num_gt_def parseInt_def trimStart_def
  isStrWhiteSpaceChar_def isHexPrefix_def isRadixDigit_def digitValue_def digitsValue_def
  BigInt_def trimEnd_def isDecimalString_def ordered_checks_def Let_def

lemmas mw_defs = uptoPaymentMiddleware_def truthy_def Let_def example_routes_def
  example_route_def example_request_def example_collaborators_def

lemmas lower_defs = toLowerCase_def toLowerCaseChar_def char_of_def bit_Suc_0_iff

section \<open>The unit tests of the repository, on the model\<close>

text \<open>
  The cases of the test suite for the verifier, the settler and the client, with the
  clock fixed at \<open>example_now\<close>: the model gives the result each test expects. The other
  settler cases appear below with the properties they illustrate.
\<close>

lemma test_verify_valid:
  "verifyUpto example_signer example_payload example_requirements example_now () =
     (Inr \<lparr> isValid = True, invalidReason = None,
            VerifyResult.payer = Some ''0xf39Fd6e51aad88F6F4ce6aB8827279cffFb92266'' \<rparr>,
      [VerifyTypedData (verify_params example_payload example_requirements
          \<lparr> m_permitted_token = ''0x036CbD53842c5426634e7929541eC2318f3dCF7e'',
            m_permitted_amount = 1000000, m_spender = X402_UPTO_PERMIT2_PROXY_ADDRESS,
            m_nonce = 12345, m_deadline = 1700000600,
            m_witness_to = ''0x70997970C51812dc3A010C7d01b50e0d17dc79C8'',
            m_witness_validAfter = 1699999940, m_witness_extra = ''0x'' \<rparr>),
       ReadContract (allowance_params example_authorization),
       ReadContract (balance_params example_authorization)], ())"
  by (simp add: eval_defs)

lemma test_rejects_wrong_spender:
  "verifyUpto example_signer
     (example_payload \<lparr> permit2Authorization := example_authorization
        \<lparr> spender := ''0x0000000000000000000000000000000000000001'' \<rparr> \<rparr>)
     example_requirements example_now ()
   = (Inr (invalid ''invalid_spender''), [], ())"
  by (simp add: eval_defs lower_defs)

lemma test_rejects_wrong_recipient:
  "verifyUpto example_signer
     (example_payload \<lparr> permit2Authorization := example_authorization
        \<lparr> witness := \<lparr> to = ''0x0000000000000000000000000000000000000001'',
                        validAfter = ''1699999940'', extra = ''0x'' \<rparr> \<rparr> \<rparr>)
     example_requirements example_now ()
   = (Inr (invalid ''invalid_recipient''), [], ())"
  by (simp add: eval_defs lower_defs)

lemma test_recipient_case_insensitive:
  "fst (verifyUpto example_signer
     (example_payload \<lparr> permit2Authorization := example_authorization
        \<lparr> witness := \<lparr> to = ''0x70997970c51812dc3a010c7d01b50e0d17dc79c8'',
                        validAfter = ''1699999940'', extra = ''0x'' \<rparr> \<rparr> \<rparr>)
     example_requirements example_now ())
   = Inr \<lparr> isValid = True, invalidReason = None,
            VerifyResult.payer = Some ''0xf39Fd6e51aad88F6F4ce6aB8827279cffFb92266'' \<rparr>"
  by (simp add: eval_defs lower_defs)

lemma test_rejects_expired_deadline:
  "verifyUpto example_signer
     (example_payload \<lparr> permit2Authorization := example_authorization \<lparr> deadline := ''1000'' \<rparr> \<rparr>)
     example_requirements example_now ()
   = (Inr (invalid ''permit2_deadline_expired''), [], ())"
  by (simp add: eval_defs)

lemma test_rejects_future_validAfter:
  "verifyUpto example_signer
     (example_payload \<lparr> permit2Authorization := example_authorization
        \<lparr> witness := \<lparr> to = ''0x70997970C51812dc3A010C7d01b50e0d17dc79C8'',
                        validAfter = ''1700009999'', extra = ''0x'' \<rparr> \<rparr> \<rparr>)
     example_requirements example_now ()
   = (Inr (invalid ''permit2_not_yet_valid''), [], ())"
  by (simp add: eval_defs)

lemma test_rejects_invalid_signature:
  "fst (verifyUpto (example_signer \<lparr> verifyTypedData := (\<lambda>p w. (Inr False, w)) \<rparr>)
     example_payload example_requirements example_now ())
   = Inr (invalid ''invalid_permit2_signature'')"
  by (simp add: eval_defs)

lemma test_rejects_insufficient_balance:
  "fst (verifyUpto
     \<lparr> readContract = (\<lambda>p n. (Inr (if n = (0::nat) then 10000000000 else 0), Suc n)),
       verifyTypedData = (\<lambda>p n. (Inr True, n)),
       writeContract = (\<lambda>p n. (Inr ''0xtxhash'', n)),
       waitForTransactionReceipt =
         (\<lambda>h n. (Inr \<lparr> TransactionReceipt.status = Success,
                          transactionHash = ''0xtxhash'' \<rparr>, n)) \<rparr>
     example_payload example_requirements example_now 0)
   = Inr (invalid ''insufficient_balance'')"
  by (simp add: eval_defs)

lemma test_settle_falls_back_to_full_amount:
  "fst (settleUpto example_signer example_payload example_requirements example_now ())
   = Inr \<lparr> success = True, txHash = Some ''0xtxhash'', settledAmount = Some ''1000000'',
           SettleResult.error = None \<rparr>"
  by (simp add: eval_defs)

lemma test_settle_handles_revert:
  "fst (settleUpto
     (example_signer \<lparr> waitForTransactionReceipt :=
        (\<lambda>h w. (Inr \<lparr> TransactionReceipt.status = Reverted,
                         transactionHash = ''0xfailedtx'' \<rparr>, w)) \<rparr>)
     (example_payload \<lparr> settlementAmount := Some ''43700'' \<rparr>)
     example_requirements example_now ())
   = Inr \<lparr> success = False, txHash = Some ''0xtxhash'', settledAmount = None,
           SettleResult.error = Some ''transaction_reverted'' \<rparr>"
  by (simp add: eval_defs)

lemma test_client_rejects_unsupported_network:
  "fst (createUptoPermit2Payload example_client
     (example_requirements \<lparr> UptoPaymentRequirements.network := ''solana:mainnet'' \<rparr>)
     example_now example_now 12345 ())
   = Inl (Error ''Unsupported network format: solana:mainnet. Expected eip155:<chainId>'')"
  by (simp add: createUptoPermit2Payload_def client_parseChainId_def example_requirements_def)

lemma test_chain_id: "parseChainId ''eip155:84532'' = Some 84532"
  by (simp add: parseChainId_def eval_defs)

section \<open>The settler\<close>

subsection \<open>Settled amount against authorized amount\<close>

text \<open>What a successful settlement returns: the effective amount is readable, at most the
  authorized amount, and echoed back, except that a zero amount comes back as \<open>"0"\<close>.\<close>

lemma settleUpto_success_cases:
  assumes run: "fst (settleUpto signer payload requirements now w) = Inr r" and ok: "success r"
  shows "\<exists>v a. BigInt (effective_amount payload) = Some v
           \<and> BigInt (TokenPermissions.amount (permitted (permit2Authorization payload))) = Some a
           \<and> v \<le> a
           \<and> (if v = 0 then settledAmount r = Some ''0''
               else settledAmount r = Some (effective_amount payload))"
proof -
  let ?eff = "effective_amount payload"
  let ?amt = "TokenPermissions.amount (permitted (permit2Authorization payload))"
  from run obtain v where v: "BigInt ?eff = Some v"
    by (cases "BigInt ?eff") (simp_all add: settleUpto_def effective_amount_def Let_def)
  from run v obtain a where a: "BigInt ?amt = Some a"
    by (cases "BigInt ?amt") (simp_all add: settleUpto_def effective_amount_def Let_def)
  have le: "v \<le> a"
  proof (rule ccontr)
    assume "\<not> v \<le> a"
    with run v a have "r = settle_failed (Some ''settlement_exceeds_authorization'')"
      by (simp add: settleUpto_def effective_amount_def Let_def)
    with ok show False by (simp add: settle_failed_def)
  qed
  have "if v = 0 then settledAmount r = Some ''0'' else settledAmount r = Some ?eff"
  proof (cases "v = 0")
    case True
    with run v a le show ?thesis
      by (auto simp: settleUpto_def effective_amount_def Let_def)
  next
    case False
    obtain rv cs w1 where vr: "verifyUpto signer payload requirements now w = (rv, cs, w1)"
      by (cases "verifyUpto signer payload requirements now w") auto
    show ?thesis
    proof (cases rv)
      case (Inl e)
      with run v a le False vr show ?thesis
        by (simp add: settleUpto_def effective_amount_def Let_def)
    next
      case (Inr verification)
      note rv = this
      show ?thesis
      proof (cases "isValid verification")
        case False
        with run v a le \<open>v \<noteq> 0\<close> vr rv have "r = settle_failed (invalidReason verification)"
          by (simp add: settleUpto_def effective_amount_def Let_def)
        with ok show ?thesis by (simp add: settle_failed_def)
      next
        case True
        note valid = this
        show ?thesis
        proof (cases "settle_args payload ?eff")
          case (Inl e)
          with run v a le \<open>v \<noteq> 0\<close> vr rv valid
          have "r = settle_failed (Some (catch_message e))"
            by (simp add: settleUpto_def effective_amount_def Let_def)
          with ok show ?thesis by (simp add: settle_failed_def)
        next
          case (Inr sargs)
          note sa = this
          let ?wp = "\<lparr> WriteContractParams.address = X402_UPTO_PERMIT2_PROXY_ADDRESS,
                  WriteContractParams.abi = X402_UPTO_PROXY_ABI,
                  WriteContractParams.functionName = ''settle'',
                  WriteContractParams.args = sargs \<rparr>"
          obtain rw w2 where wc: "writeContract signer ?wp w1 = (rw, w2)"
            by (cases "writeContract signer ?wp w1") auto
          show ?thesis
          proof (cases rw)
            case (Inl e)
            with run v a le \<open>v \<noteq> 0\<close> vr rv valid sa wc
            have "r = settle_failed (Some (catch_message e))"
              by (simp add: settleUpto_def effective_amount_def Let_def)
            with ok show ?thesis by (simp add: settle_failed_def)
          next
            case (Inr hash)
            note rw = this
            obtain rr w3 where wr: "waitForTransactionReceipt signer hash w2 = (rr, w3)"
              by (cases "waitForTransactionReceipt signer hash w2") auto
            show ?thesis
            proof (cases rr)
              case (Inl e)
              with run v a le \<open>v \<noteq> 0\<close> vr rv valid sa wc rw wr
              have "r = settle_failed (Some (catch_message e))"
                by (simp add: settleUpto_def effective_amount_def Let_def)
              with ok show ?thesis by (simp add: settle_failed_def)
            next
              case (Inr receipt)
              with run v a le \<open>v \<noteq> 0\<close> vr rv valid sa wc rw wr ok show ?thesis
                by (auto simp: settleUpto_def effective_amount_def Let_def split: if_splits)
            qed
          qed
        qed
      qed
    qed
  qed
  with v a le show ?thesis by blast
qed

text \<open>
  Claim C1, as stated, asks that the \<open>settledAmount\<close> of a successful settlement be a
  decimal string. The settler hands back the string it was given, and \<open>BigInt\<close> reads more
  than decimal strings: with \<open>settlementAmount = "0x10"\<close> (sixteen) against an
  authorization of \<open>1000000\<close> the test signer settles, and \<open>settledAmount\<close> is \<open>"0x10"\<close>.
\<close>

theorem settleUpto_hex_amount_counterexample:
  "fst (settleUpto example_signer (example_payload \<lparr> settlementAmount := Some ''0x10'' \<rparr>)
          example_requirements example_now ())
     = Inr \<lparr> success = True, txHash = Some ''0xtxhash'', settledAmount = Some ''0x10'',
             SettleResult.error = None \<rparr>
   \<and> \<not> isDecimalString ''0x10''"
  by (simp add: eval_defs)

text \<open>
  Claim C1, amended: whenever \<open>settleUpto\<close> returns a result with \<open>success: true\<close>, the
  returned \<open>settledAmount\<close> is the effective settlement amount (the metered
  \<open>settlementAmount\<close>, or the ceiling when it is absent) or \<open>"0"\<close>; \<open>BigInt\<close> reads it as an
  integer that is at most the integer \<open>BigInt\<close> reads from \<open>permitted.amount\<close>; and it is a
  decimal string whenever the effective settlement amount is one.
\<close>

theorem settleUpto_settled_at_most_authorized:
  assumes "fst (settleUpto signer payload requirements now w) = Inr r" and "success r"
  shows "\<exists>s v a. settledAmount r = Some s
           \<and> (s = effective_amount payload \<or> s = ''0'')
           \<and> BigInt s = Some v
           \<and> BigInt (TokenPermissions.amount (permitted (permit2Authorization payload))) = Some a
           \<and> v \<le> a
           \<and> (isDecimalString (effective_amount payload) \<longrightarrow> isDecimalString s)"
proof -
  from settleUpto_success_cases [OF assms] obtain v a
    where v: "BigInt (effective_amount payload) = Some v"
      and a: "BigInt (TokenPermissions.amount (permitted (permit2Authorization payload))) = Some a"
      and le: "v \<le> a"
      and s: "if v = 0 then settledAmount r = Some ''0''
              else settledAmount r = Some (effective_amount payload)"
    by blast
  have zero: "BigInt ''0'' = Some 0" "isDecimalString ''0''"
    by (simp_all add: eval_defs)
  show ?thesis
  proof (cases "v = 0")
    case True
    with s v a le zero show ?thesis by auto
  next
    case False
    with s v a le show ?thesis by auto
  qed
qed

text \<open>The amended claim on the metered settlement of the test suite (\<open>"43700"\<close> of
  \<open>"1000000"\<close>).\<close>

theorem settleUpto_settled_at_most_authorized_witness:
  "fst (settleUpto example_signer (example_payload \<lparr> settlementAmount := Some ''43700'' \<rparr>)
          example_requirements example_now ())
     = Inr \<lparr> success = True, txHash = Some ''0xtxhash'', settledAmount = Some ''43700'',
             SettleResult.error = None \<rparr>
   \<and> isDecimalString (effective_amount (example_payload \<lparr> settlementAmount := Some ''43700'' \<rparr>))
   \<and> (\<exists>s v a. Some ''43700'' = Some s
          \<and> (s = ''43700'' \<or> s = ''0'')
          \<and> BigInt s = Some v \<and> BigInt ''1000000'' = Some a \<and> v \<le> a \<and> isDecimalString s)"
proof -
  let ?p = "example_payload \<lparr> settlementAmount := Some ''43700'' \<rparr>"
  let ?r = "\<lparr> success = True, txHash = Some ''0xtxhash'', settledAmount = Some ''43700'',
             SettleResult.error = None \<rparr>"
  have run: "fst (settleUpto example_signer ?p example_requirements example_now ()) = Inr ?r"
    by (simp add: eval_defs)
  have ok: "success ?r" by simp
  have dec: "isDecimalString (effective_amount ?p)"
    by (simp add: eval_defs)
  have eff: "effective_amount ?p = ''43700''"
    "TokenPermissions.amount (permitted (permit2Authorization ?p)) = ''1000000''"
    by (simp_all add: eval_defs)
  from settleUpto_settled_at_most_authorized [OF run ok] dec
  have "\<exists>s v a. Some ''43700'' = Some s
          \<and> (s = ''43700'' \<or> s = ''0'')
          \<and> BigInt s = Some v \<and> BigInt ''1000000'' = Some a \<and> v \<le> a \<and> isDecimalString s"
    unfolding eff by simp
  with run dec show ?thesis by blast
qed

subsection \<open>Settlement above the authorization\<close>

text \<open>
  Claim C3: when the effective settlement amount is strictly greater than
  \<open>permitted.amount\<close>, \<open>settleUpto\<close> returns \<open>success: false\<close> with the error
  \<open>settlement_exceeds_authorization\<close> and makes no call on the signer at all: no
  \<open>writeContract\<close>, no verification, no chain read, and the world is as it was.
\<close>

theorem settleUpto_exceeds_authorization:
  assumes "BigInt (effective_amount payload) = Some s"
    and "BigInt (TokenPermissions.amount (permitted (permit2Authorization payload))) = Some a"
    and "s > a"
  shows "settleUpto signer payload requirements now w =
           (Inr \<lparr> success = False, txHash = None, settledAmount = None,
                  SettleResult.error = Some ''settlement_exceeds_authorization'' \<rparr>, [], w)"
  using assms by (simp add: settleUpto_def effective_amount_def settle_failed_def Let_def)

text \<open>The test "rejects settlement exceeding authorization": \<open>"9999999"\<close> of
  \<open>"1000000"\<close>.\<close>

theorem settleUpto_exceeds_authorization_witness:
  "BigInt (effective_amount (example_payload \<lparr> settlementAmount := Some ''9999999'' \<rparr>)) = Some 9999999
   \<and> BigInt (TokenPermissions.amount (permitted (permit2Authorization
         (example_payload \<lparr> settlementAmount := Some ''9999999'' \<rparr>)))) = Some 1000000
   \<and> (9999999 :: int) > 1000000
   \<and> settleUpto example_signer (example_payload \<lparr> settlementAmount := Some ''9999999'' \<rparr>)
         example_requirements example_now () =
           (Inr \<lparr> success = False, txHash = None, settledAmount = None,
                  SettleResult.error = Some ''settlement_exceeds_authorization'' \<rparr>, [], ())"
proof -
  have h1: "BigInt (effective_amount (example_payload \<lparr> settlementAmount := Some ''9999999'' \<rparr>)) = Some 9999999"
    by (simp add: eval_defs)
  have h2: "BigInt (TokenPermissions.amount (permitted (permit2Authorization
         (example_payload \<lparr> settlementAmount := Some ''9999999'' \<rparr>)))) = Some 1000000"
    by (simp add: eval_defs)
  have h3: "(9999999 :: int) > 1000000" by simp
  from h1 h2 h3
    settleUpto_exceeds_authorization [OF h1 h2 h3, of example_signer example_requirements example_now "()"]
  show ?thesis by simp
qed

subsection \<open>Zero settlement\<close>

text \<open>
  Claim C4: when the effective settlement amount is zero and does not exceed
  \<open>permitted.amount\<close>, \<open>settleUpto\<close> returns \<open>success: true\<close> with \<open>settledAmount: "0"\<close>
  and makes no call on the signer: \<open>writeContract\<close> is not called and verification is not
  run again.
\<close>

theorem settleUpto_zero_elided:
  assumes "BigInt (effective_amount payload) = Some 0"
    and "BigInt (TokenPermissions.amount (permitted (permit2Authorization payload))) = Some a"
    and "0 \<le> a"
  shows "settleUpto signer payload requirements now w =
           (Inr \<lparr> success = True, txHash = None, settledAmount = Some ''0'', SettleResult.error = None \<rparr>,
            [], w)"
  using assms by (simp add: settleUpto_def effective_amount_def Let_def)

text \<open>The test "skips on-chain settlement for zero amount".\<close>

theorem settleUpto_zero_elided_witness:
  "BigInt (effective_amount (example_payload \<lparr> settlementAmount := Some ''0'' \<rparr>)) = Some 0
   \<and> BigInt (TokenPermissions.amount (permitted (permit2Authorization
         (example_payload \<lparr> settlementAmount := Some ''0'' \<rparr>)))) = Some 1000000
   \<and> (0 :: int) \<le> 1000000
   \<and> settleUpto example_signer (example_payload \<lparr> settlementAmount := Some ''0'' \<rparr>)
         example_requirements example_now () =
           (Inr \<lparr> success = True, txHash = None, settledAmount = Some ''0'',
                  SettleResult.error = None \<rparr>, [], ())"
proof -
  have h1: "BigInt (effective_amount (example_payload \<lparr> settlementAmount := Some ''0'' \<rparr>)) = Some 0"
    by (simp add: eval_defs)
  have h2: "BigInt (TokenPermissions.amount (permitted (permit2Authorization
         (example_payload \<lparr> settlementAmount := Some ''0'' \<rparr>)))) = Some 1000000"
    by (simp add: eval_defs)
  have h3: "(0 :: int) \<le> 1000000" by simp
  from h1 h2 h3
    settleUpto_zero_elided [OF h1 h2 h3, of example_signer example_requirements example_now "()"]
  show ?thesis by simp
qed

section \<open>The verifier\<close>

subsection \<open>The order of the checks\<close>

text \<open>
  Claim C2, as stated, is about every payload. The verifier reads the payload's numbers
  with \<open>BigInt\<close> outside any \<open>try\<close> block and its times with \<open>parseInt\<close>. The test
  payload with the nonce \<open>"abc"\<close> passes the five local checks and then makes
  \<open>verifyUpto\<close> throw a \<open>SyntaxError\<close>: no tag and no result is returned. The test
  payload with the empty string as deadline, for which \<open>deadline > now\<close> does not hold,
  is not rejected with \<open>permit2_deadline_expired\<close>: the test signer finds it valid.
\<close>

theorem verifyUpto_unreadable_fields_counterexample:
  "verifyUpto example_signer
      (example_payload \<lparr> permit2Authorization :=
         example_authorization \<lparr> Permit2Authorization.nonce := ''abc'' \<rparr> \<rparr>)
      example_requirements example_now ()
     = (Inl (SyntaxError ''abc''), [], ())
   \<and> fst (verifyUpto example_signer
        (example_payload \<lparr> permit2Authorization :=
           example_authorization \<lparr> deadline := [] \<rparr> \<rparr>)
        example_requirements example_now ())
     = Inr \<lparr> isValid = True, invalidReason = None,
             VerifyResult.payer = Some ''0xf39Fd6e51aad88F6F4ce6aB8827279cffFb92266'' \<rparr>"
  by (simp add: eval_defs)

text \<open>
  The time checks read the deadline and \<open>validAfter\<close> with \<open>parseInt\<close>, the signed
  message takes them through \<open>BigInt\<close>, and the two readers differ on more than the empty
  string: \<open>parseInt\<close> stops at the first character that is no digit, \<open>BigInt\<close> knows the
  prefixes \<open>0o\<close> and \<open>0b\<close>. With \<open>validAfter = "0o7777777777777777"\<close> the check judges
  0 while the signature covers \<open>2^48 - 1\<close>, a time far ahead, and the payload is found
  valid. The amended claim leaves such fields out.
\<close>

lemma verifyUpto_readings_disagree:
  "parseInt ''0o7777777777777777'' 0 = Some 0
   \<and> BigInt ''0o7777777777777777'' = Some 281474976710655
   \<and> fst (verifyUpto example_signer
        (example_payload \<lparr> permit2Authorization := example_authorization
           \<lparr> witness := \<lparr> to = ''0x70997970C51812dc3A010C7d01b50e0d17dc79C8'',
                          validAfter = ''0o7777777777777777'', extra = ''0x'' \<rparr> \<rparr> \<rparr>)
        example_requirements example_now ())
     = Inr \<lparr> isValid = True, invalidReason = None,
             VerifyResult.payer = Some ''0xf39Fd6e51aad88F6F4ce6aB8827279cffFb92266'' \<rparr>"
  by (simp add: eval_defs)

text \<open>
  Claim C2, amended: for every payload whose fields are well formed as far as
  verification reads them, \<open>verifyUpto\<close> returns the failure tag of the first failing
  check in the fixed order of \<open>ordered_checks\<close> (a signer call that throws fails its check
  with \<open>signature_verification_failed\<close>, \<open>allowance_check_failed\<close> or
  \<open>balance_check_failed\<close>), and \<open>isValid: true\<close> with \<open>payer: from\<close> when every check
  passes; it performs a chain read (\<open>readContract\<close>) exactly when the five local checks
  and the signature check all pass. Well formed as far as read: if the two checks before
  it pass, the deadline is one integer \<open>d\<close> for \<open>parseInt\<close> and for \<open>BigInt\<close>; if the
  deadline check passes too, so is \<open>validAfter\<close>, \<open>va\<close>; if the four checks before it
  pass, \<open>BigInt\<close> reads the authorized amount as \<open>a\<close> and the server's maximum as \<open>m\<close>;
  and if the five local checks pass, \<open>BigInt\<close> reads the nonce as \<open>n\<close>. A field that no
  check gets to read is unconstrained. \<open>sig\<close>, \<open>al\<close> and \<open>bal\<close> name the answers of the
  signer to the signature check on the message over these numbers and to the two chain
  reads.
\<close>

theorem verifyUpto_first_failing_check:
  assumes d: "list_all fst (take 2 (ordered_checks payload requirements now d va a m sig al bal))
        \<Longrightarrow> parseInt (deadline (permit2Authorization payload)) 0 = Some d
          \<and> BigInt (deadline (permit2Authorization payload)) = Some d"
    and va: "list_all fst (take 3 (ordered_checks payload requirements now d va a m sig al bal))
        \<Longrightarrow> parseInt (validAfter (witness (permit2Authorization payload))) 0 = Some va
          \<and> BigInt (validAfter (witness (permit2Authorization payload))) = Some va"
    and am: "list_all fst (take 4 (ordered_checks payload requirements now d va a m sig al bal))
        \<Longrightarrow> BigInt (TokenPermissions.amount (permitted (permit2Authorization payload))) = Some a
          \<and> BigInt (maxAmount requirements) = Some m"
    and n: "list_all fst (take 5 (ordered_checks payload requirements now d va a m sig al bal))
        \<Longrightarrow> BigInt (Permit2Authorization.nonce (permit2Authorization payload)) = Some n"
    and sig: "verifyTypedData signer
                (verify_params payload requirements
                   (signed_message (permit2Authorization payload) a n d va)) w = (sig, wa)"
    and al: "readContract signer (allowance_params (permit2Authorization payload)) wa = (al, wb)"
    and bal: "readContract signer (balance_params (permit2Authorization payload)) wb = (bal, wc)"
  shows "fst (verifyUpto signer payload requirements now w) =
           Inr (case first_failing (ordered_checks payload requirements now d va a m sig al bal) of
                  Some tag \<Rightarrow> \<lparr> isValid = False, invalidReason = Some tag, VerifyResult.payer = None \<rparr>
                | None \<Rightarrow> \<lparr> isValid = True, invalidReason = None,
                            VerifyResult.payer = Some (from (permit2Authorization payload)) \<rparr>)
         \<and> (list_ex isReadContract (fst (snd (verifyUpto signer payload requirements now w)))
              = list_all fst (take 6 (ordered_checks payload requirements now d va a m sig al bal)))"
proof -
  let ?auth = "permit2Authorization payload"
  let ?c1 = "toLowerCase (spender ?auth) = toLowerCase X402_UPTO_PERMIT2_PROXY_ADDRESS"
  let ?c2 = "toLowerCase (to (witness ?auth))
               = toLowerCase (UptoPaymentRequirements.payTo requirements)"
  show ?thesis
  proof (cases ?c1)
    case False
    then show ?thesis
      by (simp add: verifyUpto_def ordered_checks_def invalid_def Let_def)
  next
    case c1: True
    show ?thesis
    proof (cases ?c2)
      case False
      with c1 show ?thesis
        by (simp add: verifyUpto_def ordered_checks_def invalid_def Let_def)
    next
      case c2: True
      from d c1 c2 have dp: "parseInt (deadline ?auth) 0 = Some d"
        and db: "BigInt (deadline ?auth) = Some d"
        by (simp_all add: ordered_checks_def)
      show ?thesis
      proof (cases "now < d")
        case False
        with c1 c2 dp show ?thesis
          by (simp add: verifyUpto_def ordered_checks_def invalid_def num_le_def Let_def)
      next
        case c3: True
        from va c1 c2 c3 have vp: "parseInt (validAfter (witness ?auth)) 0 = Some va"
          and vb: "BigInt (validAfter (witness ?auth)) = Some va"
          by (simp_all add: ordered_checks_def)
        show ?thesis
        proof (cases "va \<le> now")
          case False
          with c1 c2 c3 dp vp show ?thesis
            by (simp add: verifyUpto_def ordered_checks_def invalid_def num_le_def num_gt_def
                Let_def)
        next
          case c4: True
          from am c1 c2 c3 c4
          have ab: "BigInt (TokenPermissions.amount (permitted ?auth)) = Some a"
            and mb: "BigInt (maxAmount requirements) = Some m"
            by (simp_all add: ordered_checks_def)
          show ?thesis
          proof (cases "m \<le> a")
            case False
            with c1 c2 c3 c4 dp vp ab mb show ?thesis
              by (simp add: verifyUpto_def ordered_checks_def invalid_def num_le_def num_gt_def
                  Let_def)
          next
            case c5: True
            from n c1 c2 c3 c4 c5
            have nb: "BigInt (Permit2Authorization.nonce ?auth) = Some n"
              by (simp add: ordered_checks_def)
            have msg: "verify_message ?auth = Inr (signed_message ?auth a n d va)"
              by (simp add: verify_message_def signed_message_def ab nb db vb)
            note local = c1 c2 c3 c4 c5 dp vp ab mb msg
            show ?thesis
            proof (cases sig)
              case (Inl e)
              with local sig show ?thesis
                by (simp add: verifyUpto_def ordered_checks_def invalid_def num_le_def num_gt_def
                    Let_def)
            next
              case (Inr isValidSig)
              note s = this
              show ?thesis
              proof (cases isValidSig)
                case False
                with s local sig show ?thesis
                  by (simp add: verifyUpto_def ordered_checks_def invalid_def num_le_def
                      num_gt_def Let_def)
              next
                case True
                note sv = this
                show ?thesis
                proof (cases al)
                  case (Inl e)
                  with sv s local sig al show ?thesis
                    by (simp add: verifyUpto_def ordered_checks_def invalid_def num_le_def
                        num_gt_def Let_def)
                next
                  case (Inr allowance)
                  note alv = this
                  show ?thesis
                  proof (cases "allowance < a")
                    case True
                    with alv sv s local sig al show ?thesis
                      by (simp add: verifyUpto_def ordered_checks_def invalid_def num_le_def
                          num_gt_def Let_def)
                  next
                    case False
                    with alv sv s local sig al bal show ?thesis
                      by (cases bal)
                        (simp_all add: verifyUpto_def ordered_checks_def invalid_def num_le_def
                          num_gt_def Let_def)
                  qed
                qed
              qed
            qed
          qed
        qed
      qed
    qed
  qed
qed

text \<open>
  The test "rejects insufficient Permit2 allowance", whose mock answers the first chain
  read with 0 and the second with plenty (the world of the signer counts the reads): all
  fields are read and agree. And the test payload with a wrong spender and the nonce
  \<open>"abc"\<close>: the first check rejects it and no field is read.
\<close>

theorem verifyUpto_first_failing_check_witness:
  "parseInt (deadline (permit2Authorization example_payload)) 0 = Some 1700000600
   \<and> BigInt (deadline (permit2Authorization example_payload)) = Some 1700000600
   \<and> parseInt (validAfter (witness (permit2Authorization example_payload))) 0 = Some 1699999940
   \<and> BigInt (validAfter (witness (permit2Authorization example_payload))) = Some 1699999940
   \<and> BigInt (TokenPermissions.amount (permitted (permit2Authorization example_payload)))
        = Some 1000000
   \<and> BigInt (maxAmount example_requirements) = Some 1000000
   \<and> BigInt (Permit2Authorization.nonce (permit2Authorization example_payload)) = Some 12345
   \<and> list_all fst (take 6 (ordered_checks example_payload example_requirements example_now
         1700000600 1699999940 1000000 1000000 (Inr True) (Inr 0) (Inr 10000000000)))
   \<and> fst (verifyUpto example_signer_no_allowance example_payload example_requirements
         example_now 0)
      = Inr \<lparr> isValid = False, invalidReason = Some ''permit2_allowance_required'',
              VerifyResult.payer = None \<rparr>
   \<and> list_ex isReadContract (fst (snd (verifyUpto example_signer_no_allowance example_payload
         example_requirements example_now 0)))
   \<and> BigInt ''abc'' = None
   \<and> fst (verifyUpto example_signer_no_allowance
         (example_payload \<lparr> permit2Authorization := example_authorization
            \<lparr> spender := ''0x0000000000000000000000000000000000000001'',
              Permit2Authorization.nonce := ''abc'' \<rparr> \<rparr>)
         example_requirements example_now 0)
      = Inr \<lparr> isValid = False, invalidReason = Some ''invalid_spender'',
              VerifyResult.payer = None \<rparr>"
proof -
  let ?sg = "example_signer_no_allowance"
  let ?C = "ordered_checks example_payload example_requirements example_now
         1700000600 1699999940 1000000 1000000 (Inr True) (Inr 0) (Inr 10000000000)"
  have h1: "parseInt (deadline (permit2Authorization example_payload)) 0 = Some 1700000600
      \<and> BigInt (deadline (permit2Authorization example_payload)) = Some 1700000600"
    by (simp add: eval_defs)
  have h2: "parseInt (validAfter (witness (permit2Authorization example_payload))) 0
        = Some 1699999940
      \<and> BigInt (validAfter (witness (permit2Authorization example_payload))) = Some 1699999940"
    by (simp add: eval_defs)
  have h3: "BigInt (TokenPermissions.amount (permitted (permit2Authorization example_payload)))
        = Some 1000000
      \<and> BigInt (maxAmount example_requirements) = Some 1000000"
    by (simp add: eval_defs)
  have h4: "BigInt (Permit2Authorization.nonce (permit2Authorization example_payload))
      = Some 12345"
    by (simp add: eval_defs)
  have h5: "verifyTypedData ?sg (verify_params example_payload example_requirements
      (signed_message (permit2Authorization example_payload) 1000000 12345 1700000600
         1699999940)) 0 = (Inr True, 0)"
    by (simp add: example_signer_no_allowance_def)
  have h6: "readContract ?sg (allowance_params (permit2Authorization example_payload)) 0
      = (Inr 0, Suc 0)"
    by (simp add: example_signer_no_allowance_def)
  have h7: "readContract ?sg (balance_params (permit2Authorization example_payload)) (Suc 0)
      = (Inr 10000000000, Suc (Suc 0))"
    by (simp add: example_signer_no_allowance_def)
  have six: "list_all fst (take 6 ?C)"
    by (simp add: ordered_checks_def example_payload_def example_authorization_def
        example_requirements_def example_now_def)
  have tag: "first_failing ?C = Some ''permit2_allowance_required''"
    by (simp add: ordered_checks_def example_payload_def example_authorization_def
        example_requirements_def example_now_def)
  have run1: "fst (verifyUpto ?sg example_payload example_requirements example_now 0)
      = Inr \<lparr> isValid = False, invalidReason = Some ''permit2_allowance_required'',
              VerifyResult.payer = None \<rparr>
    \<and> list_ex isReadContract (fst (snd (verifyUpto ?sg example_payload example_requirements
         example_now 0)))"
    using verifyUpto_first_failing_check
      [where payload = example_payload and requirements = example_requirements
         and now = example_now and d = 1700000600 and va = 1699999940 and a = 1000000
         and m = 1000000 and n = 12345 and signer = ?sg and w = 0 and wa = 0
         and wb = "Suc 0" and wc = "Suc (Suc 0)" and sig = "Inr True" and al = "Inr 0"
         and bal = "Inr 10000000000", OF h1 h2 h3 h4 h5 h6 h7]
    by (simp add: six tag)
  let ?p = "example_payload \<lparr> permit2Authorization := example_authorization
            \<lparr> spender := ''0x0000000000000000000000000000000000000001'',
              Permit2Authorization.nonce := ''abc'' \<rparr> \<rparr>"
  let ?D = "ordered_checks ?p example_requirements example_now
         0 0 0 0 (Inr True) (Inr 0) (Inr 10000000000)"
  have nospender: "\<not> list_all fst (take k ?D)" if "0 < k" for k
  proof -
    from that obtain j where "k = Suc j" by (cases k) auto
    then show ?thesis
      by (simp add: ordered_checks_def example_payload_def example_authorization_def
          X402_UPTO_PERMIT2_PROXY_ADDRESS_def lower_defs)
  qed
  have g5: "verifyTypedData ?sg (verify_params ?p example_requirements
      (signed_message (permit2Authorization ?p) 0 0 0 0)) 0 = (Inr True, 0)"
    by (simp add: example_signer_no_allowance_def)
  have g6: "readContract ?sg (allowance_params (permit2Authorization ?p)) 0 = (Inr 0, Suc 0)"
    by (simp add: example_signer_no_allowance_def)
  have g7: "readContract ?sg (balance_params (permit2Authorization ?p)) (Suc 0)
      = (Inr 10000000000, Suc (Suc 0))"
    by (simp add: example_signer_no_allowance_def)
  have tag2: "first_failing ?D = Some ''invalid_spender''"
    by (simp add: ordered_checks_def example_payload_def example_authorization_def
          X402_UPTO_PERMIT2_PROXY_ADDRESS_def lower_defs)
  have abc: "BigInt ''abc'' = None" by (simp add: eval_defs)
  have run2: "fst (verifyUpto ?sg ?p example_requirements example_now 0)
      = Inr \<lparr> isValid = False, invalidReason = Some ''invalid_spender'',
              VerifyResult.payer = None \<rparr>"
    using verifyUpto_first_failing_check
      [where payload = ?p and requirements = example_requirements
         and now = example_now and d = 0 and va = 0 and a = 0
         and m = 0 and n = 0 and signer = ?sg and w = 0 and wa = 0
         and wb = "Suc 0" and wc = "Suc (Suc 0)" and sig = "Inr True" and al = "Inr 0"
         and bal = "Inr 10000000000", OF _ _ _ _ g5 g6 g7]
      nospender [of 2] nospender [of 3] nospender [of 4] nospender [of 5]
    by (simp add: tag2)
  from h1 h2 h3 h4 six run1 abc run2 show ?thesis by blast
qed

subsection \<open>The time boundaries\<close>

text \<open>
  Claim C8: a payload whose deadline equals the current time fails \<open>verifyUpto\<close>: no
  result for it is valid, and once the spender and recipient checks before it pass, the
  result is \<open>permit2_deadline_expired\<close>, with no signer call. A payload whose
  \<open>witness.validAfter\<close> equals the current time passes the \<open>validAfter\<close> check: no result
  for it is \<open>permit2_not_yet_valid\<close>.
\<close>

theorem verifyUpto_time_boundaries:
  "(parseInt (deadline (permit2Authorization payload)) 0 = Some now \<longrightarrow>
      (\<forall>r. fst (verifyUpto signer payload requirements now w) = Inr r \<longrightarrow> \<not> isValid r))
   \<and> (parseInt (deadline (permit2Authorization payload)) 0 = Some now \<longrightarrow>
        toLowerCase (spender (permit2Authorization payload))
          = toLowerCase X402_UPTO_PERMIT2_PROXY_ADDRESS \<longrightarrow>
        toLowerCase (to (witness (permit2Authorization payload)))
          = toLowerCase (UptoPaymentRequirements.payTo requirements) \<longrightarrow>
        verifyUpto signer payload requirements now w =
          (Inr \<lparr> isValid = False, invalidReason = Some ''permit2_deadline_expired'',
                 VerifyResult.payer = None \<rparr>, [], w))
   \<and> (parseInt (validAfter (witness (permit2Authorization payload))) 0 = Some now \<longrightarrow>
        (\<forall>r. fst (verifyUpto signer payload requirements now w) = Inr r \<longrightarrow>
           invalidReason r \<noteq> Some ''permit2_not_yet_valid''))"
  by (auto simp: verifyUpto_def num_le_def num_gt_def invalid_def Let_def
      split: option.splits sum.splits prod.splits if_splits)

text \<open>The test payload, checked at the second of its deadline and at the second of its
  \<open>validAfter\<close>; in the latter case it verifies.\<close>

theorem verifyUpto_time_boundaries_witness:
  "parseInt (deadline (permit2Authorization example_payload)) 0 = Some 1700000600
   \<and> toLowerCase (spender (permit2Authorization example_payload))
        = toLowerCase X402_UPTO_PERMIT2_PROXY_ADDRESS
   \<and> toLowerCase (to (witness (permit2Authorization example_payload)))
        = toLowerCase (UptoPaymentRequirements.payTo example_requirements)
   \<and> verifyUpto example_signer example_payload example_requirements 1700000600 () =
        (Inr \<lparr> isValid = False, invalidReason = Some ''permit2_deadline_expired'',
               VerifyResult.payer = None \<rparr>, [], ())
   \<and> parseInt (validAfter (witness (permit2Authorization example_payload))) 0 = Some 1699999940
   \<and> fst (verifyUpto example_signer example_payload example_requirements 1699999940 ())
        = Inr \<lparr> isValid = True, invalidReason = None,
                VerifyResult.payer = Some ''0xf39Fd6e51aad88F6F4ce6aB8827279cffFb92266'' \<rparr>
   \<and> invalidReason \<lparr> isValid = True, invalidReason = None,
                VerifyResult.payer = Some ''0xf39Fd6e51aad88F6F4ce6aB8827279cffFb92266'' \<rparr>
        \<noteq> Some ''permit2_not_yet_valid''"
proof -
  have h1: "parseInt (deadline (permit2Authorization example_payload)) 0 = Some 1700000600"
    by (simp add: eval_defs)
  have h2: "toLowerCase (spender (permit2Authorization example_payload))
        = toLowerCase X402_UPTO_PERMIT2_PROXY_ADDRESS"
    by (simp add: example_payload_def example_authorization_def)
  have h3: "toLowerCase (to (witness (permit2Authorization example_payload)))
        = toLowerCase (UptoPaymentRequirements.payTo example_requirements)"
    by (simp add: example_payload_def example_authorization_def example_requirements_def)
  have h4: "parseInt (validAfter (witness (permit2Authorization example_payload))) 0
      = Some 1699999940"
    by (simp add: eval_defs)
  have h5: "fst (verifyUpto example_signer example_payload example_requirements 1699999940 ())
        = Inr \<lparr> isValid = True, invalidReason = None,
                VerifyResult.payer = Some ''0xf39Fd6e51aad88F6F4ce6aB8827279cffFb92266'' \<rparr>"
    by (simp add: eval_defs)
  from h1 h2 h3 h4 h5
    verifyUpto_time_boundaries [of example_payload 1700000600 example_signer
      example_requirements "()"]
    verifyUpto_time_boundaries [of example_payload 1699999940 example_signer
      example_requirements "()"]
  show ?thesis by simp
qed

subsection \<open>Time fields that are not numbers\<close>



section \<open>The client builder against the verifier\<close>

lemma createUptoPermit2Payload_Inr:
  assumes "fst (createUptoPermit2Payload csigner requirements now1 now2 rnd cw) = Inr payload"
  shows "\<exists>sig. payload =
     \<lparr> UptoPermit2Payload.signature = sig,
       permit2Authorization =
         \<lparr> from = ClientSigner.address csigner,
           permitted = \<lparr> TokenPermissions.token = UptoPaymentRequirements.asset requirements,
                         TokenPermissions.amount = maxAmount requirements \<rparr>,
           spender = X402_UPTO_PERMIT2_PROXY_ADDRESS,
           Permit2Authorization.nonce = toString rnd,
           deadline = toString (now1 + UptoPaymentRequirements.maxTimeoutSeconds requirements),
           witness = \<lparr> to = UptoPaymentRequirements.payTo requirements,
                       validAfter = toString (now2 - 60),
                       extra = ''0x'' \<rparr> \<rparr>,
       settlementAmount = None \<rparr>"
  using assms
  by (auto simp: createUptoPermit2Payload_def Let_def BigInt_toString
      split: sum.splits prod.splits)

text \<open>
  Claim C6, as stated, takes every requirements with scheme \<open>upto\<close> and an \<open>eip155\<close>
  network. With \<open>maxTimeoutSeconds = 0\<close> the builder sets the deadline to the current
  second, and the verifier, asked in that same second by a signer that approves
  everything, answers \<open>permit2_deadline_expired\<close>. With a \<open>maxAmount\<close> that \<open>BigInt\<close>
  cannot read, here \<open>"1.5"\<close>, the builder signs all the same and the verifier throws.
\<close>

theorem built_payload_zero_timeout_counterexample:
  "fst (createUptoPermit2Payload example_client
          (example_requirements \<lparr> UptoPaymentRequirements.maxTimeoutSeconds := 0 \<rparr>)
          example_now example_now 12345 ())
     = Inr \<lparr> UptoPermit2Payload.signature = ''0xmocksignature'',
             permit2Authorization =
               \<lparr> from = ''0xf39Fd6e51aad88F6F4ce6aB8827279cffFb92266'',
                 permitted =
                   \<lparr> TokenPermissions.token = ''0x036CbD53842c5426634e7929541eC2318f3dCF7e'',
                     TokenPermissions.amount = ''1000000'' \<rparr>,
                 spender = X402_UPTO_PERMIT2_PROXY_ADDRESS,
                 Permit2Authorization.nonce = ''12345'',
                 deadline = ''1700000000'',
                 witness = \<lparr> to = ''0x70997970C51812dc3A010C7d01b50e0d17dc79C8'',
                             validAfter = ''1699999940'', extra = ''0x'' \<rparr> \<rparr>,
             settlementAmount = None \<rparr>
   \<and> fst (verifyUpto example_signer
        \<lparr> UptoPermit2Payload.signature = ''0xmocksignature'',
          permit2Authorization =
            \<lparr> from = ''0xf39Fd6e51aad88F6F4ce6aB8827279cffFb92266'',
              permitted =
                \<lparr> TokenPermissions.token = ''0x036CbD53842c5426634e7929541eC2318f3dCF7e'',
                  TokenPermissions.amount = ''1000000'' \<rparr>,
              spender = X402_UPTO_PERMIT2_PROXY_ADDRESS,
              Permit2Authorization.nonce = ''12345'',
              deadline = ''1700000000'',
              witness = \<lparr> to = ''0x70997970C51812dc3A010C7d01b50e0d17dc79C8'',
                          validAfter = ''1699999940'', extra = ''0x'' \<rparr> \<rparr>,
          settlementAmount = None \<rparr>
        (example_requirements \<lparr> UptoPaymentRequirements.maxTimeoutSeconds := 0 \<rparr>)
        example_now ())
     = Inr \<lparr> isValid = False, invalidReason = Some ''permit2_deadline_expired'',
             VerifyResult.payer = None \<rparr>
   \<and> fst (createUptoPermit2Payload example_client
          (example_requirements \<lparr> maxAmount := ''1.5'' \<rparr>) example_now example_now 12345 ())
     = Inr \<lparr> UptoPermit2Payload.signature = ''0xmocksignature'',
             permit2Authorization =
               \<lparr> from = ''0xf39Fd6e51aad88F6F4ce6aB8827279cffFb92266'',
                 permitted =
                   \<lparr> TokenPermissions.token = ''0x036CbD53842c5426634e7929541eC2318f3dCF7e'',
                     TokenPermissions.amount = ''1.5'' \<rparr>,
                 spender = X402_UPTO_PERMIT2_PROXY_ADDRESS,
                 Permit2Authorization.nonce = ''12345'',
                 deadline = ''1700000300'',
                 witness = \<lparr> to = ''0x70997970C51812dc3A010C7d01b50e0d17dc79C8'',
                             validAfter = ''1699999940'', extra = ''0x'' \<rparr> \<rparr>,
             settlementAmount = None \<rparr>
   \<and> fst (verifyUpto example_signer
        \<lparr> UptoPermit2Payload.signature = ''0xmocksignature'',
          permit2Authorization =
            \<lparr> from = ''0xf39Fd6e51aad88F6F4ce6aB8827279cffFb92266'',
              permitted =
                \<lparr> TokenPermissions.token = ''0x036CbD53842c5426634e7929541eC2318f3dCF7e'',
                  TokenPermissions.amount = ''1.5'' \<rparr>,
              spender = X402_UPTO_PERMIT2_PROXY_ADDRESS,
              Permit2Authorization.nonce = ''12345'',
              deadline = ''1700000300'',
              witness = \<lparr> to = ''0x70997970C51812dc3A010C7d01b50e0d17dc79C8'',
                          validAfter = ''1699999940'', extra = ''0x'' \<rparr> \<rparr>,
          settlementAmount = None \<rparr>
        (example_requirements \<lparr> maxAmount := ''1.5'' \<rparr>) example_now ())
     = Inl (SyntaxError ''1.5'')"
  by (simp add: eval_defs createUptoPermit2Payload_def client_parseChainId_def toString_def
      natToString.simps digitChar_def)

text \<open>
  Claim C6, amended: for every requirements for which the builder returns a payload (an
  \<open>eip155\<close> network, a signer that signs), whose \<open>maxAmount\<close> \<open>BigInt\<close> can read and
  whose deadline \<open>now + maxTimeoutSeconds\<close> is a safe integer, the payload passes
  \<open>verifyUpto\<close> with \<open>isValid: true\<close> and the client's address as payer at every time
  \<open>t\<close> from its \<open>validAfter\<close> to just before its deadline, so at the time it was built
  whenever \<open>maxTimeoutSeconds\<close> is at least 1, against the same requirements and a
  facilitator signer that reports the signature valid and allowance and balance of at
  least the amount. The builder's spender is the upto proxy constant, \<open>witness.to\<close> is
  \<open>requirements.payTo\<close>, \<open>permitted.amount\<close> is \<open>requirements.maxAmount\<close>, the deadline is
  \<open>now + maxTimeoutSeconds\<close> and \<open>validAfter\<close> is \<open>now - 60\<close>.
\<close>

theorem built_payload_verifies:
  assumes built: "fst (createUptoPermit2Payload csigner requirements now1 now2 rnd cw) = Inr payload"
    and m: "BigInt (maxAmount requirements) = Some m"
    and safe: "now1 + UptoPaymentRequirements.maxTimeoutSeconds requirements < 2 ^ 53"
    and t1: "t < now1 + UptoPaymentRequirements.maxTimeoutSeconds requirements"
    and t2: "now2 - 60 \<le> t"
    and sig: "verifyTypedData fsigner
                (verify_params payload requirements
                   \<lparr> m_permitted_token = UptoPaymentRequirements.asset requirements,
                     m_permitted_amount = m,
                     m_spender = X402_UPTO_PERMIT2_PROXY_ADDRESS,
                     m_nonce = rnd,
                     m_deadline = now1 + UptoPaymentRequirements.maxTimeoutSeconds requirements,
                     m_witness_to = UptoPaymentRequirements.payTo requirements,
                     m_witness_validAfter = now2 - 60,
                     m_witness_extra = ''0x'' \<rparr>) w = (Inr True, w1)"
    and al: "readContract fsigner (allowance_params (permit2Authorization payload)) w1 = (Inr al, w2)"
    and al_ok: "m \<le> al"
    and bal: "readContract fsigner (balance_params (permit2Authorization payload)) w2 = (Inr bal, w3)"
    and bal_ok: "m \<le> bal"
  shows "fst (verifyUpto fsigner payload requirements t w) =
           Inr \<lparr> isValid = True, invalidReason = None,
                 VerifyResult.payer = Some (ClientSigner.address csigner) \<rparr>
         \<and> spender (permit2Authorization payload) = X402_UPTO_PERMIT2_PROXY_ADDRESS
         \<and> to (witness (permit2Authorization payload)) = UptoPaymentRequirements.payTo requirements
         \<and> TokenPermissions.amount (permitted (permit2Authorization payload)) = maxAmount requirements
         \<and> deadline (permit2Authorization payload)
              = toString (now1 + UptoPaymentRequirements.maxTimeoutSeconds requirements)
         \<and> validAfter (witness (permit2Authorization payload)) = toString (now2 - 60)"
proof -
  from createUptoPermit2Payload_Inr [OF built] obtain s where p: "payload =
     \<lparr> UptoPermit2Payload.signature = s,
       permit2Authorization =
         \<lparr> from = ClientSigner.address csigner,
           permitted = \<lparr> TokenPermissions.token = UptoPaymentRequirements.asset requirements,
                         TokenPermissions.amount = maxAmount requirements \<rparr>,
           spender = X402_UPTO_PERMIT2_PROXY_ADDRESS,
           Permit2Authorization.nonce = toString rnd,
           deadline = toString (now1 + UptoPaymentRequirements.maxTimeoutSeconds requirements),
           witness = \<lparr> to = UptoPaymentRequirements.payTo requirements,
                       validAfter = toString (now2 - 60),
                       extra = ''0x'' \<rparr> \<rparr>,
       settlementAmount = None \<rparr>" by blast
  have msg: "verify_message (permit2Authorization payload) =
      Inr \<lparr> m_permitted_token = UptoPaymentRequirements.asset requirements,
                     m_permitted_amount = m,
                     m_spender = X402_UPTO_PERMIT2_PROXY_ADDRESS,
                     m_nonce = rnd,
                     m_deadline = now1 + UptoPaymentRequirements.maxTimeoutSeconds requirements,
                     m_witness_to = UptoPaymentRequirements.payTo requirements,
                     m_witness_validAfter = now2 - 60,
                     m_witness_extra = ''0x'' \<rparr>"
    using m by (simp add: p verify_message_def BigInt_toString)
  have fields: "spender (permit2Authorization payload) = X402_UPTO_PERMIT2_PROXY_ADDRESS"
    "to (witness (permit2Authorization payload)) = UptoPaymentRequirements.payTo requirements"
    "TokenPermissions.amount (permitted (permit2Authorization payload)) = maxAmount requirements"
    "deadline (permit2Authorization payload)
       = toString (now1 + UptoPaymentRequirements.maxTimeoutSeconds requirements)"
    "validAfter (witness (permit2Authorization payload)) = toString (now2 - 60)"
    "from (permit2Authorization payload) = ClientSigner.address csigner"
    by (simp_all add: p)
  have "fst (verifyUpto fsigner payload requirements t w) =
           Inr \<lparr> isValid = True, invalidReason = None,
                 VerifyResult.payer = Some (ClientSigner.address csigner) \<rparr>"
    using m t1 t2 sig al al_ok bal bal_ok
    by (simp add: verifyUpto_def fields msg parseInt_toString num_le_def num_gt_def Let_def)
  with fields show ?thesis by simp
qed

text \<open>The requirements of the test suite (\<open>maxTimeoutSeconds = 300\<close>), built and verified
  in the same second.\<close>

theorem built_payload_verifies_witness:
  "fst (createUptoPermit2Payload example_client example_requirements example_now example_now
          12345 ())
     = Inr (example_payload \<lparr> UptoPermit2Payload.signature := ''0xmocksignature'',
              permit2Authorization := example_authorization \<lparr> deadline := ''1700000300'' \<rparr> \<rparr>)
   \<and> BigInt (maxAmount example_requirements) = Some 1000000
   \<and> example_now + UptoPaymentRequirements.maxTimeoutSeconds example_requirements < 2 ^ 53
   \<and> example_now < example_now + UptoPaymentRequirements.maxTimeoutSeconds example_requirements
   \<and> example_now - 60 \<le> example_now
   \<and> (1000000::int) \<le> 10000000000
   \<and> fst (verifyUpto example_signer
        (example_payload \<lparr> UptoPermit2Payload.signature := ''0xmocksignature'',
              permit2Authorization := example_authorization \<lparr> deadline := ''1700000300'' \<rparr> \<rparr>)
        example_requirements example_now ())
      = Inr \<lparr> isValid = True, invalidReason = None,
              VerifyResult.payer = Some (ClientSigner.address example_client) \<rparr>"
proof -
  let ?p = "example_payload \<lparr> UptoPermit2Payload.signature := ''0xmocksignature'',
              permit2Authorization := example_authorization \<lparr> deadline := ''1700000300'' \<rparr> \<rparr>"
  have h1: "fst (createUptoPermit2Payload example_client example_requirements example_now
      example_now 12345 ()) = Inr ?p"
    by (simp add: eval_defs createUptoPermit2Payload_def client_parseChainId_def toString_def
        natToString.simps digitChar_def)
  have h2: "BigInt (maxAmount example_requirements) = Some 1000000"
    by (simp add: eval_defs)
  have h3: "example_now
      < example_now + UptoPaymentRequirements.maxTimeoutSeconds example_requirements"
    by (simp add: example_requirements_def)
  have h9: "example_now + UptoPaymentRequirements.maxTimeoutSeconds example_requirements
      < 2 ^ 53"
    by (simp add: example_requirements_def example_now_def)
  have h4: "example_now - 60 \<le> example_now" by simp
  have h5: "verifyTypedData example_signer
              (verify_params ?p example_requirements
                 \<lparr> m_permitted_token = UptoPaymentRequirements.asset example_requirements,
                   m_permitted_amount = 1000000,
                   m_spender = X402_UPTO_PERMIT2_PROXY_ADDRESS,
                   m_nonce = 12345,
                   m_deadline =
                     example_now + UptoPaymentRequirements.maxTimeoutSeconds example_requirements,
                   m_witness_to = UptoPaymentRequirements.payTo example_requirements,
                   m_witness_validAfter = example_now - 60,
                   m_witness_extra = ''0x'' \<rparr>) () = (Inr True, ())"
    by (simp add: example_signer_def)
  have h6: "readContract example_signer (allowance_params (permit2Authorization ?p)) ()
      = (Inr 10000000000, ())"
    by (simp add: example_signer_def)
  have h7: "readContract example_signer (balance_params (permit2Authorization ?p)) ()
      = (Inr 10000000000, ())"
    by (simp add: example_signer_def)
  have h8: "(1000000::int) \<le> 10000000000" by simp
  have r: "fst (verifyUpto example_signer ?p example_requirements example_now ())
      = Inr \<lparr> isValid = True, invalidReason = None,
              VerifyResult.payer = Some (ClientSigner.address example_client) \<rparr>"
    using built_payload_verifies [OF h1 h2 h9 h3 h4 h5 h6 h8 h7 h8] by (rule conjunct1)
  from h1 h2 h9 h3 h4 h8 r show ?thesis by - (intro conjI, assumption+)
qed

section \<open>The resource middleware\<close>

subsection \<open>The status of a failed verification\<close>

text \<open>
  Claim C5: for a gated request that carries a payment header, when the facilitator's
  verify reply has \<open>isValid: false\<close>, the middleware responds with status 412 if
  \<open>invalidReason\<close> is \<open>permit2_allowance_required\<close> and with status 402 for every other
  \<open>invalidReason\<close>, in both cases with the body
  \<open>{ error: "Payment verification failed", reason, accepts: [requirements] }\<close>.
\<close>

theorem middleware_verification_failed_status:
  assumes route: "routes (method req @ '' '' @ pathname req) = Some routeConfig"
    and price: "parseUsdcAmount env (UptoRouteDefinition.maxPrice routeConfig) = Inr maxAmount_v"
    and header: "(case header_X_Payment req of Some h \<Rightarrow> Some h
                   | None \<Rightarrow> header_Payment_Signature req) = Some h"
    and nonempty: "h \<noteq> []"
    and decoded: "decode env h = Some payload"
    and reply: "post_verify env (facilitatorUrl @ ''/verify'') payload
                  \<lparr> UptoPaymentRequirements.network = UptoRouteDefinition.network routeConfig,
                    UptoPaymentRequirements.asset =
                      (case UptoRouteDefinition.asset routeConfig of
                         Some a \<Rightarrow> a
                       | None \<Rightarrow> ''0x036CbD53842c5426634e7929541eC2318f3dCF7e''),
                    maxAmount = maxAmount_v,
                    UptoPaymentRequirements.payTo = UptoRouteDefinition.payTo routeConfig,
                    UptoPaymentRequirements.maxTimeoutSeconds =
                      (case UptoRouteDefinition.maxTimeoutSeconds routeConfig of
                         Some t \<Rightarrow> t | None \<Rightarrow> 300) \<rparr> = VerifyReply verification"
    and invalid: "\<not> isValid verification"
  shows "uptoPaymentMiddleware routes facilitatorUrl env req =
           Reply \<lparr> ErrorBody.error = ''Payment verification failed'',
                   reason = invalidReason verification,
                   accepts = Some
                     [\<lparr> UptoPaymentRequirements.network = UptoRouteDefinition.network routeConfig,
                        UptoPaymentRequirements.asset =
                          (case UptoRouteDefinition.asset routeConfig of
                             Some a \<Rightarrow> a
                           | None \<Rightarrow> ''0x036CbD53842c5426634e7929541eC2318f3dCF7e''),
                        maxAmount = maxAmount_v,
                        UptoPaymentRequirements.payTo = UptoRouteDefinition.payTo routeConfig,
                        UptoPaymentRequirements.maxTimeoutSeconds =
                          (case UptoRouteDefinition.maxTimeoutSeconds routeConfig of
                             Some t \<Rightarrow> t | None \<Rightarrow> 300) \<rparr>],
                   ErrorBody.description = None, ErrorBody.mimeType = None \<rparr>
                 (if invalidReason verification = Some ''permit2_allowance_required''
                  then 412 else 402)"
  using assms by (simp add: uptoPaymentMiddleware_def truthy_def Let_def)

text \<open>The demo route, once with a reply that asks for the Permit2 allowance (412) and
  once with an expired deadline (402).\<close>

theorem middleware_verification_failed_status_witness:
  "(\<exists>body. uptoPaymentMiddleware (example_routes ''eip155:84532'') ''http://localhost:4402''
        (example_collaborators (invalid ''permit2_allowance_required''))
        (example_request (Some ''eyJzaWduYXR1cmUiOiIweCJ9'')) = Reply body 412
      \<and> ErrorBody.error body = ''Payment verification failed''
      \<and> reason body = Some ''permit2_allowance_required'')
   \<and> (\<exists>body. uptoPaymentMiddleware (example_routes ''eip155:84532'') ''http://localhost:4402''
        (example_collaborators (invalid ''permit2_deadline_expired''))
        (example_request (Some ''eyJzaWduYXR1cmUiOiIweCJ9'')) = Reply body 402
      \<and> ErrorBody.error body = ''Payment verification failed''
      \<and> reason body = Some ''permit2_deadline_expired'')"
proof -
  let ?routes = "example_routes ''eip155:84532''"
  let ?req = "example_request (Some ''eyJzaWduYXR1cmUiOiIweCJ9'')"
  let ?reqs = "\<lparr> UptoPaymentRequirements.network =
                     UptoRouteDefinition.network (example_route ''eip155:84532''),
                   UptoPaymentRequirements.asset =
                     (case UptoRouteDefinition.asset (example_route ''eip155:84532'') of
                        Some a \<Rightarrow> a
                      | None \<Rightarrow> ''0x036CbD53842c5426634e7929541eC2318f3dCF7e''),
                   maxAmount = ''1000000'',
                   UptoPaymentRequirements.payTo =
                     UptoRouteDefinition.payTo (example_route ''eip155:84532''),
                   UptoPaymentRequirements.maxTimeoutSeconds =
                     (case UptoRouteDefinition.maxTimeoutSeconds (example_route ''eip155:84532'') of
                        Some t \<Rightarrow> t | None \<Rightarrow> 300) \<rparr>"
  have route: "?routes (method ?req @ '' '' @ pathname ?req) = Some (example_route ''eip155:84532'')"
    by (simp add: example_routes_def example_request_def)
  have price: "parseUsdcAmount (example_collaborators v)
      (UptoRouteDefinition.maxPrice (example_route ''eip155:84532'')) = Inr ''1000000''" for v
    by (simp add: example_collaborators_def example_route_def)
  have header: "(case header_X_Payment ?req of Some h \<Rightarrow> Some h
                   | None \<Rightarrow> header_Payment_Signature ?req) = Some ''eyJzaWduYXR1cmUiOiIweCJ9''"
    by (simp add: example_request_def)
  have nonempty: "''eyJzaWduYXR1cmUiOiIweCJ9'' \<noteq> []" by simp
  have decoded: "decode (example_collaborators v) ''eyJzaWduYXR1cmUiOiIweCJ9''
      = Some example_payload" for v
    by (simp add: example_collaborators_def)
  have reply: "post_verify (example_collaborators v) (''http://localhost:4402'' @ ''/verify'')
      example_payload ?reqs = VerifyReply v" for v
    by (simp add: example_collaborators_def)
  have inv: "\<not> isValid (invalid tag)" for tag
    by (simp add: invalid_def)
  let ?v1 = "invalid ''permit2_allowance_required''"
  let ?v2 = "invalid ''permit2_deadline_expired''"
  from middleware_verification_failed_status
      [of ?routes ?req "example_route ''eip155:84532''" "example_collaborators ?v1"
        "''1000000''" "''eyJzaWduYXR1cmUiOiIweCJ9''" example_payload
        "''http://localhost:4402''" ?v1,
        OF route price header nonempty decoded reply inv]
    middleware_verification_failed_status
      [of ?routes ?req "example_route ''eip155:84532''" "example_collaborators ?v2"
        "''1000000''" "''eyJzaWduYXR1cmUiOiIweCJ9''" example_payload
        "''http://localhost:4402''" ?v2,
        OF route price header nonempty decoded reply inv]
  show ?thesis by (simp add: invalid_def)
qed

subsection \<open>The default token of a route\<close>

text \<open>
  Claim C7 asks that a route without \<open>asset\<close> get the default token of its network, and
  that setup fail on a network without one. The middleware puts the Base Sepolia USDC
  address into the requirements whatever the network: for a route on Base mainnet
  (\<open>eip155:8453\<close>), whose default in \<open>USDC_ADDRESSES\<close> is another address, and for a route
  on the unknown network \<open>eip155:99999\<close>, which it serves instead of failing.
\<close>

theorem middleware_default_asset_ignores_network:
  "uptoPaymentMiddleware (example_routes ''eip155:8453'') ''http://localhost:4402''
      (example_collaborators (invalid ''invalid_spender'')) (example_request None) =
     Reply \<lparr> ErrorBody.error = ''Payment Required'', reason = None,
             accepts = Some
               [\<lparr> UptoPaymentRequirements.network = ''eip155:8453'',
                  UptoPaymentRequirements.asset = ''0x036CbD53842c5426634e7929541eC2318f3dCF7e'',
                  maxAmount = ''1000000'',
                  UptoPaymentRequirements.payTo = ''0x70997970C51812dc3A010C7d01b50e0d17dc79C8'',
                  UptoPaymentRequirements.maxTimeoutSeconds = 300 \<rparr>],
             ErrorBody.description = None, ErrorBody.mimeType = None \<rparr> 402
   \<and> USDC_ADDRESSES ''eip155:8453'' = Some ''0x833589fCD6eDb6E08f4c7C32D4f71b54bdA02913''
   \<and> uptoPaymentMiddleware (example_routes ''eip155:99999'') ''http://localhost:4402''
      (example_collaborators (invalid ''invalid_spender'')) (example_request None) =
     Reply \<lparr> ErrorBody.error = ''Payment Required'', reason = None,
             accepts = Some
               [\<lparr> UptoPaymentRequirements.network = ''eip155:99999'',
                  UptoPaymentRequirements.asset = ''0x036CbD53842c5426634e7929541eC2318f3dCF7e'',
                  maxAmount = ''1000000'',
                  UptoPaymentRequirements.payTo = ''0x70997970C51812dc3A010C7d01b50e0d17dc79C8'',
                  UptoPaymentRequirements.maxTimeoutSeconds = 300 \<rparr>],
             ErrorBody.description = None, ErrorBody.mimeType = None \<rparr> 402
   \<and> USDC_ADDRESSES ''eip155:99999'' = None"
  by (simp add: mw_defs USDC_ADDRESSES_def)

text \<open>\<open>UptoEvmServerScheme.buildRequirements\<close> on the same two configurations looks the
  network up and throws on the unknown one, as its unit tests expect.\<close>

lemma buildRequirements_default_asset:
  "buildRequirements (parseUsdcAmount (example_collaborators v))
      \<lparr> UptoRouteConfig.maxPrice = ''$1.00'', UptoRouteConfig.network = ''eip155:8453'',
        UptoRouteConfig.payTo = ''0x70997970C51812dc3A010C7d01b50e0d17dc79C8'',
        UptoRouteConfig.asset = None, UptoRouteConfig.maxTimeoutSeconds = None \<rparr>
    = Inr (Requirements
        \<lparr> UptoPaymentRequirements.network = ''eip155:8453'',
          UptoPaymentRequirements.asset = ''0x833589fCD6eDb6E08f4c7C32D4f71b54bdA02913'',
          maxAmount = ''1000000'',
          UptoPaymentRequirements.payTo = ''0x70997970C51812dc3A010C7d01b50e0d17dc79C8'',
          UptoPaymentRequirements.maxTimeoutSeconds = 300 \<rparr>)"
  "buildRequirements (parseUsdcAmount (example_collaborators v))
      \<lparr> UptoRouteConfig.maxPrice = ''$1.00'', UptoRouteConfig.network = ''eip155:99999'',
        UptoRouteConfig.payTo = ''0x70997970C51812dc3A010C7d01b50e0d17dc79C8'',
        UptoRouteConfig.asset = None, UptoRouteConfig.maxTimeoutSeconds = None \<rparr>
    = Inl (Error ''No default token for network eip155:99999. Provide asset explicitly.'')"
  by (simp_all add: buildRequirements_def USDC_ADDRESSES_at_def USDC_ADDRESSES_def
      Object_prototype_names_def example_collaborators_def Let_def)

text \<open>A network named like a member of \<open>Object.prototype\<close> is no failure for
  \<open>buildRequirements\<close> either: the lookup finds the inherited member.\<close>

lemma buildRequirements_inherited_member:
  "buildRequirements (parseUsdcAmount (example_collaborators v))
      \<lparr> UptoRouteConfig.maxPrice = ''$1.00'', UptoRouteConfig.network = ''constructor'',
        UptoRouteConfig.payTo = ''0x70997970C51812dc3A010C7d01b50e0d17dc79C8'',
        UptoRouteConfig.asset = None, UptoRouteConfig.maxTimeoutSeconds = None \<rparr>
    = Inr (RequirementsWithMember ''constructor'' ''constructor'' ''1000000''
             ''0x70997970C51812dc3A010C7d01b50e0d17dc79C8'' 300)"
  by (simp add: buildRequirements_def USDC_ADDRESSES_at_def USDC_ADDRESSES_def
      Object_prototype_names_def example_collaborators_def Let_def)

section \<open>The audit store\<close>

lemma recordVerification_distinct:
  "distinct (map PaymentRow.nonce db)
    \<Longrightarrow> distinct (map PaymentRow.nonce (recordVerification db record rowid t))"
  by (auto simp: recordVerification_def)

lemma recordVerifications_distinct:
  "distinct (map PaymentRow.nonce db)
    \<Longrightarrow> distinct (map PaymentRow.nonce (recordVerifications db calls))"
proof (induction calls arbitrary: db)
  case Nil
  then show ?case by simp
next
  case (Cons c calls)
  obtain rcd rowid t where c: "c = (rcd, rowid, t)" by (cases c) auto
  from Cons.prems have "distinct (map PaymentRow.nonce (recordVerification db rcd rowid t))"
    by (rule recordVerification_distinct)
  then show ?case unfolding c by (simp add: Cons.IH)
qed

text \<open>The two updates of the settle path rewrite rows in place and leave every nonce
  where it is.\<close>

lemma recordSettlement_nonces:
  "map PaymentRow.nonce (recordSettlement db n settled hash t) = map PaymentRow.nonce db"
  by (induction db) (simp_all add: recordSettlement_def)

lemma recordFailure_nonces:
  "map PaymentRow.nonce (recordFailure db n e) = map PaymentRow.nonce db"
  by (induction db) (simp_all add: recordFailure_def)

text \<open>
  Claim C9: \<open>recordVerification\<close> is idempotent per nonce. Inserting a record whose nonce
  is already in the table leaves the table as it is, and any sequence of
  \<open>recordVerification\<close> calls keeps at most one row per nonce, on a table that has at most
  one row per nonce to begin with, so on the empty table \<open>initDb\<close> creates.
\<close>

theorem recordVerification_idempotent:
  "(PaymentRecord.nonce record \<in> set (map PaymentRow.nonce db) \<longrightarrow>
      recordVerification db record rowid t = db)
   \<and> (distinct (map PaymentRow.nonce db) \<longrightarrow>
        distinct (map PaymentRow.nonce (recordVerifications db calls)))
   \<and> distinct (map PaymentRow.nonce (recordVerifications (initDb None) calls))"
proof (intro conjI impI)
  show "recordVerification db record rowid t = db"
    if "PaymentRecord.nonce record \<in> set (map PaymentRow.nonce db)"
    using that by (simp add: recordVerification_def)
  show "distinct (map PaymentRow.nonce (recordVerifications db calls))"
    if "distinct (map PaymentRow.nonce db)"
    using that by (rule recordVerifications_distinct)
  show "distinct (map PaymentRow.nonce (recordVerifications (initDb None) calls))"
    by (rule recordVerifications_distinct) (simp add: initDb_def)
qed

text \<open>Two \<open>/verify\<close> calls with the same payload: the second insert changes nothing.\<close>

theorem recordVerification_idempotent_witness:
  "PaymentRecord.nonce (example_record ''12345'')
     \<in> set (map PaymentRow.nonce (recordVerification [] (example_record ''12345'') 1 ''t0''))
   \<and> recordVerification (recordVerification [] (example_record ''12345'') 1 ''t0'')
        (example_record ''12345'') 2 ''t1''
      = recordVerification [] (example_record ''12345'') 1 ''t0''
   \<and> distinct (map PaymentRow.nonce ([] :: PaymentRow list))
   \<and> distinct (map PaymentRow.nonce (recordVerifications []
        [(example_record ''12345'', 1, ''t0''), (example_record ''12345'', 2, ''t1'')]))
   \<and> length (recordVerifications []
        [(example_record ''12345'', 1, ''t0''), (example_record ''12345'', 2, ''t1'')]) = 1"
proof -
  have h1: "PaymentRecord.nonce (example_record ''12345'')
     \<in> set (map PaymentRow.nonce (recordVerification [] (example_record ''12345'') 1 ''t0''))"
    by (simp add: recordVerification_def example_record_def)
  have h2: "distinct (map PaymentRow.nonce ([] :: PaymentRow list))" by simp
  have h3: "length (recordVerifications []
        [(example_record ''12345'', 1, ''t0''), (example_record ''12345'', 2, ''t1'')]) = 1"
    by (simp add: recordVerification_def example_record_def)
  from h1 h2 h3
    recordVerification_idempotent [of "example_record ''12345''"
      "recordVerification [] (example_record ''12345'') 1 ''t0''" 2 "''t1''" "[]"]
    recordVerification_idempotent [of "example_record ''12345''" "[]" 1 "''t0''"
      "[(example_record ''12345'', 1, ''t0''), (example_record ''12345'', 2, ''t1'')]"]
  show ?thesis by simp
qed

end
